theory Spec2Isabelle
  imports
    Complex_Main
    "HOL-Library.Product_Lexorder"
    "HOL-Library.List_Lexorder"
    "HOL-Library.Char_ord"
    "HOL-Library.Multiset"
begin

section \<open>Conventions of the embedding\<close>

text \<open>
  The two modules embedded here are \<^verbatim>\<open>data_pipeline/build_feature_table.py\<close> (the feature
  table of one row per player and target fixture) and
  \<^verbatim>\<open>data_pipeline/phase2_rank_players.py\<close> (the position-grouped ranking).

  \<^item> Python floats are modelled as \<^typ>\<open>real\<close>: arithmetic is exact, there is no NaN and no
    infinity. Python integers are \<^typ>\<open>int\<close>.
  \<^item> A raised exception is the \<open>Inl\<close> branch of a result of type \<open>error + 'a\<close>. Python's
    float division raises \<^verbatim>\<open>ZeroDivisionError\<close> on a zero divisor; \<open>truediv\<close> is that
    division, used wherever the divisor is a program variable.
  \<^item> A pandas DataFrame is the list of its rows, each row a record; a nullable column has
    an \<open>option\<close> type (\<open>None\<close> is NULL/NaN/NaT). Record fields carry a prefix naming
    their table, since field names are global.
  \<^item> A timestamp is the integer number of nanoseconds since the epoch, \<open>None\<close> is NaT.
    \<^verbatim>\<open>pd.to_datetime(..., utc=True, errors="coerce")\<close> is the parameter \<open>to_datetime\<close>,
    applied to each cell; Python's builtin \<^verbatim>\<open>float(...)\<close> on a string is the parameter
    \<open>py_float\<close> (\<open>None\<close> where it raises \<^verbatim>\<open>ValueError\<close>).
  \<^item> Strings are lists of characters compared by code point; \<open>strip\<close>, \<open>upper\<close> and
    \<open>lower\<close> act on the ASCII letters and the white space characters below 256.
\<close>

datatype error = ValueError string | FileNotFoundError string | ZeroDivisionError

definition truediv :: "real \<Rightarrow> real \<Rightarrow> error + real" where
  "truediv a b = (if b = 0 then Inl ZeroDivisionError else Inr (a / b))"

definition ebind :: "error + 'a \<Rightarrow> ('a \<Rightarrow> error + 'b) \<Rightarrow> error + 'b" where
  "ebind m f = (case m of Inl e \<Rightarrow> Inl e | Inr x \<Rightarrow> f x)"

text \<open>A list comprehension whose element expression may raise: the first raise aborts.\<close>

fun mapE :: "('a \<Rightarrow> error + 'b) \<Rightarrow> 'a list \<Rightarrow> error + 'b list" where
  "mapE f [] = Inr []"
| "mapE f (x # xs) = ebind (f x) (\<lambda>y. ebind (mapE f xs) (\<lambda>ys. Inr (y # ys)))"

text \<open>A \<^verbatim>\<open>for\<close> loop updating a state, whose body may raise.\<close>

fun foldE :: "('a \<Rightarrow> 's \<Rightarrow> error + 's) \<Rightarrow> 'a list \<Rightarrow> 's \<Rightarrow> error + 's" where
  "foldE f [] s = Inr s"
| "foldE f (x # xs) s = ebind (f x s) (foldE f xs)"

text \<open>The slice \<^verbatim>\<open>values[-n:]\<close> for a positive \<open>n\<close>.\<close>

definition last_n :: "'a list \<Rightarrow> nat \<Rightarrow> 'a list" where
  "last_n values n = drop (length values - n) values"

text \<open>\<^verbatim>\<open>df.drop_duplicates()\<close> and \<^verbatim>\<open>groupby(..., sort=False)\<close> keep first occurrences, in order.\<close>

definition drop_duplicates :: "'a list \<Rightarrow> 'a list" where
  "drop_duplicates xs = rev (remdups (rev xs))"

text \<open>A dict built from key/value pairs in order: the last pair of a key wins.\<close>

definition dict_of :: "('k \<times> 'v) list \<Rightarrow> ('k \<rightharpoonup> 'v)" where
  "dict_of kvs = map_of (rev kvs)"

subsection \<open>Strings\<close>

definition is_space :: "char \<Rightarrow> bool" where
  "is_space c = (of_char c \<in> {9, 10, 11, 12, 13, 28, 29, 30, 31, 32, 133, 160 :: nat})"

definition strip :: "string \<Rightarrow> string" where
  "strip s = rev (dropWhile is_space (rev (dropWhile is_space s)))"

definition endswith :: "string \<Rightarrow> string \<Rightarrow> bool" where
  "endswith s suffix =
     (length suffix \<le> length s \<and> drop (length s - length suffix) s = suffix)"

definition upper_char :: "char \<Rightarrow> char" where
  "upper_char c =
     (case map_of (zip ''abcdefghijklmnopqrstuvwxyz'' ''ABCDEFGHIJKLMNOPQRSTUVWXYZ'') c of
        None \<Rightarrow> c | Some u \<Rightarrow> u)"

definition lower_char :: "char \<Rightarrow> char" where
  "lower_char c =
     (case map_of (zip ''ABCDEFGHIJKLMNOPQRSTUVWXYZ'' ''abcdefghijklmnopqrstuvwxyz'') c of
        None \<Rightarrow> c | Some l \<Rightarrow> l)"

definition upper :: "string \<Rightarrow> string" where
  "upper s = map upper_char s"

definition lower :: "string \<Rightarrow> string" where
  "lower s = map lower_char s"

text \<open>\<^verbatim>\<open>str(x)\<close> of a cell that may be \<^verbatim>\<open>None\<close>.\<close>

definition str_of :: "string option \<Rightarrow> string" where
  "str_of v = (case v of None \<Rightarrow> ''None'' | Some s \<Rightarrow> s)"

section \<open>build\_feature\_table.py\<close>

subsection \<open>Rolling statistics and the risk model\<close>

definition rolling_mean :: "real list \<Rightarrow> int \<Rightarrow> error + real" where
  "rolling_mean values n =
     (if n \<le> 0 then Inr 0
      else let window = last_n values (nat n)
           in if window = [] then Inr 0
              else truediv (sum_list window) (real (length window)))"

definition rolling_std :: "real list \<Rightarrow> int \<Rightarrow> error + real" where
  "rolling_std values n =
     (if n \<le> 0 then Inr 0
      else let window = last_n values (nat n)
           in if length window \<le> 1 then Inr 0
              else ebind (truediv (sum_list window) (real (length window))) (\<lambda>mean.
                   ebind (truediv (sum_list (map (\<lambda>x. (x - mean) ^ 2) window))
                            (real (length window))) (\<lambda>variance.
                   Inr (sqrt variance))))"

definition compute_benching_probability :: "real list \<Rightarrow> error + real" where
  "compute_benching_probability last_minutes =
     (if last_minutes = [] then Inr 1
      else let n = real (length last_minutes)
           in ebind (truediv (sum_list (map (\<lambda>m. 1) (filter (\<lambda>m. m \<ge> 60) last_minutes))) n)
                (\<lambda>start_rate.
              ebind (truediv (sum_list (map (\<lambda>m. 1) (filter (\<lambda>m. 0 < m \<and> m < 60) last_minutes))) n)
                (\<lambda>cameo_rate.
              ebind (truediv (sum_list (map (\<lambda>m. 1) (filter (\<lambda>m. m = 0) last_minutes))) n)
                (\<lambda>dnp_rate.
              let bench_prob = (0.6 * dnp_rate) + (0.3 * cameo_rate) + (0.1 * (1 - start_rate))
              in Inr (max 0 (min 1 bench_prob))))))"

definition compute_risk_score :: "real \<Rightarrow> real \<Rightarrow> int \<Rightarrow> real" where
  "compute_risk_score benching_probability minutes_volatility_5 injury_flag =
     (let vol_component = max 0 (min 1 minutes_volatility_5);
          risk = (0.55 * benching_probability) + (0.30 * vol_component)
                 + (0.15 * real_of_int injury_flag)
      in max 0 (min 1 risk))"

text \<open>
  \<open>is_prior_match\<close> is \<^verbatim>\<open>_is_prior_match\<close> (an identifier cannot start with an underscore
  here); \<^verbatim>\<open>pd.notna\<close> of a timestamp is \<open>\<noteq> None\<close>.
\<close>

definition is_prior_match :: "int option \<Rightarrow> int \<Rightarrow> int option \<Rightarrow> int \<Rightarrow> bool" where
  "is_prior_match match_dt match_round target_dt target_event =
     (if match_dt \<noteq> None \<and> target_dt \<noteq> None then the match_dt < the target_dt
      else match_round < target_event)"

subsection \<open>Tables\<close>

text \<open>The three frames read from the database, with the nullability of the schema.\<close>

record player_row =
  pl_player_id :: int
  pl_player_name :: string
  pl_team_id :: int
  pl_team :: string
  pl_position :: string
  pl_now_cost :: real
  pl_status :: "string option"

record fixture_row =
  fx_fixture_id :: int
  fx_event :: "int option"
  fx_kickoff_time :: "string option"
  fx_finished :: "int option"
  fx_team_h :: int
  fx_team_a :: int
  fx_team_h_difficulty :: "int option"
  fx_team_a_difficulty :: "int option"

record history_row =
  h_player_id :: int
  h_fixture_id :: int
  h_round :: "int option"
  h_kickoff_time :: "string option"
  h_minutes :: "real option"
  h_total_points :: "real option"
  h_expected_goal_involvements :: "real option"
  h_expected_goals :: "real option"
  h_expected_assists :: "real option"
  h_value :: "real option"

record database =
  db_players :: "player_row list"
  db_fixtures :: "fixture_row list"
  db_history :: "history_row list"

text \<open>One row per (team, fixture), as \<^verbatim>\<open>_build_team_fixture_rows\<close> returns them.\<close>

record team_fixture =
  tf_fixture_id :: int
  tf_event :: int
  tf_kickoff_time :: "string option"
  tf_finished :: int
  tf_team_id :: int
  tf_opponent_team_id :: int
  tf_opponent_difficulty :: int
  tf_is_home :: int
  tf_kickoff_dt :: "int option"

text \<open>An entry of \<^verbatim>\<open>player_history[player_id]\<close>.\<close>

record match_record =
  m_kickoff_dt :: "int option"
  m_round :: int
  m_minutes :: real
  m_points :: real
  m_xgi :: real
  m_price :: real

text \<open>A row of the output frame, one field per entry of \<^verbatim>\<open>OUTPUT_COLUMNS\<close>.\<close>

record feature_row =
  f_player_id :: int
  f_player_name :: string
  f_team_id :: int
  f_team :: string
  f_position :: string
  f_fixture_id :: int
  f_target_event :: int
  f_kickoff_time :: string
  f_is_home :: int
  f_opponent_team_id :: int
  f_opponent_team :: string
  f_opponent_difficulty :: int
  f_dgw_count_in_event :: int
  f_is_dgw :: int
  f_rest_days :: "real option"
  f_horizon :: int
  f_horizon_fixture_count_team :: int
  f_horizon_avg_fixture_difficulty :: real
  f_horizon_home_count :: int
  f_recent_points_avg_3 :: real
  f_recent_points_avg_5 :: real
  f_recent_minutes_avg_3 :: real
  f_recent_minutes_avg_5 :: real
  f_recent_xgi_avg_3 :: real
  f_recent_xgi_avg_5 :: real
  f_minutes_volatility_5 :: real
  f_points_volatility_5 :: real
  f_benching_probability :: real
  f_risk_score :: real
  f_last_price :: real
  f_current_status :: string

subsection \<open>Team fixtures, rest days and horizon aggregates\<close>

definition fillna :: "'a \<Rightarrow> 'a option \<Rightarrow> 'a" where
  "fillna d v = (case v of None \<Rightarrow> d | Some x \<Rightarrow> x)"

text \<open>
  \<^verbatim>\<open>sort_values(..., kind="mergesort", na_position="last")\<close> is a stable sort on the
  tuple of the columns; an absent timestamp sorts after every present one.
\<close>

definition na_last :: "int option \<Rightarrow> nat \<times> int" where
  "na_last v = (case v of None \<Rightarrow> (1, 0) | Some t \<Rightarrow> (0, t))"

definition home_row :: "(string option \<Rightarrow> int option) \<Rightarrow> fixture_row \<Rightarrow> team_fixture" where
  "home_row to_datetime fx =
     \<lparr>tf_fixture_id = fx_fixture_id fx,
      tf_event = fillna 0 (fx_event fx),
      tf_kickoff_time = fx_kickoff_time fx,
      tf_finished = fillna 0 (fx_finished fx),
      tf_team_id = fx_team_h fx,
      tf_opponent_team_id = fx_team_a fx,
      tf_opponent_difficulty = fillna 0 (fx_team_h_difficulty fx),
      tf_is_home = 1,
      tf_kickoff_dt = to_datetime (fx_kickoff_time fx)\<rparr>"

definition away_row :: "(string option \<Rightarrow> int option) \<Rightarrow> fixture_row \<Rightarrow> team_fixture" where
  "away_row to_datetime fx =
     \<lparr>tf_fixture_id = fx_fixture_id fx,
      tf_event = fillna 0 (fx_event fx),
      tf_kickoff_time = fx_kickoff_time fx,
      tf_finished = fillna 0 (fx_finished fx),
      tf_team_id = fx_team_a fx,
      tf_opponent_team_id = fx_team_h fx,
      tf_opponent_difficulty = fillna 0 (fx_team_a_difficulty fx),
      tf_is_home = 0,
      tf_kickoff_dt = to_datetime (fx_kickoff_time fx)\<rparr>"

text \<open>
  \<^verbatim>\<open>_build_team_fixture_rows\<close>: all home rows, then all away rows. The \<^verbatim>\<open>finished\<close> column
  was filled by the caller (line 256) before the call; the fill is folded into the rows.
\<close>

definition build_team_fixture_rows ::
  "(string option \<Rightarrow> int option) \<Rightarrow> fixture_row list \<Rightarrow> team_fixture list" where
  "build_team_fixture_rows to_datetime fixtures =
     map (home_row to_datetime) fixtures @ map (away_row to_datetime) fixtures"

type_synonym rest_days_map = "(int \<times> int) \<rightharpoonup> real option"

text \<open>The body of the inner loop of \<^verbatim>\<open>_build_rest_days_map\<close>; the state is
  \<^verbatim>\<open>(previous_dt, rest_days_map)\<close>.\<close>

definition rest_days_step ::
  "int \<Rightarrow> team_fixture \<Rightarrow> int option \<times> rest_days_map \<Rightarrow> int option \<times> rest_days_map" where
  "rest_days_step team_id row st =
     (let previous_dt = fst st;
          rest_days_map = snd st;
          current_dt = tf_kickoff_dt row;
          rest_days =
            (if previous_dt \<noteq> None \<and> current_dt \<noteq> None
             then let delta_days = (real_of_int (the current_dt - the previous_dt) / 10 ^ 9) / 86400
                  in Some (max 0 delta_days)
             else None);
          rest_days_map' = rest_days_map((team_id, tf_fixture_id row) \<mapsto> rest_days)
      in (if current_dt \<noteq> None then current_dt else previous_dt, rest_days_map'))"

definition build_rest_days_map :: "team_fixture list \<Rightarrow> rest_days_map" where
  "build_rest_days_map team_fixtures =
     fold (\<lambda>team_id rest_days_map.
             let grp = filter (\<lambda>r. tf_team_id r = team_id) team_fixtures;
                 grp_sorted =
                   sort_key (\<lambda>r. (na_last (tf_kickoff_dt r), tf_event r, tf_fixture_id r)) grp
             in snd (fold (rest_days_step team_id) grp_sorted (None, rest_days_map)))
          (drop_duplicates (map tf_team_id team_fixtures))
          Map.empty"

type_synonym horizon_map = "(int \<times> int) \<rightharpoonup> (int \<times> real \<times> int)"

text \<open>The per-event aggregate of one team's rows: count, mean difficulty, home count.\<close>

definition event_stats :: "team_fixture list \<Rightarrow> (int \<rightharpoonup> (int \<times> real \<times> int))" where
  "event_stats grp event =
     (let rows = filter (\<lambda>r. tf_event r = event) grp
      in if rows = [] then None
         else Some (int (length rows),
                    real_of_int (sum_list (map tf_opponent_difficulty rows)) / real (length rows),
                    sum_list (map tf_is_home rows)))"

text \<open>The loop over \<^verbatim>\<open>range(event, event + max(1, horizon))\<close>; the state is
  \<^verbatim>\<open>(total_fixtures, total_home, weighted_diff_sum)\<close>.\<close>

definition horizon_totals ::
  "(int \<rightharpoonup> (int \<times> real \<times> int)) \<Rightarrow> int \<Rightarrow> int \<Rightarrow> int \<times> int \<times> real" where
  "horizon_totals stats event horizon =
     fold (\<lambda>candidate_event (total_fixtures, total_home, weighted_diff_sum).
             case stats candidate_event of
               None \<Rightarrow> (total_fixtures, total_home, weighted_diff_sum)
             | Some (fixture_count, avg_diff, home_count) \<Rightarrow>
                 (total_fixtures + fixture_count, total_home + home_count,
                  weighted_diff_sum + avg_diff * real_of_int fixture_count))
          [event .. event + max 1 horizon - 1]
          (0, 0, 0)"

definition build_horizon_map :: "team_fixture list \<Rightarrow> int \<Rightarrow> error + horizon_map" where
  "build_horizon_map team_fixtures horizon =
     foldE (\<lambda>team_id horizon_map.
              let grp = filter (\<lambda>r. tf_team_id r = team_id) team_fixtures;
                  stats = event_stats grp;
                  all_events = sort (remdups (map tf_event grp))
              in foldE (\<lambda>event hm.
                          case horizon_totals stats event horizon of
                            (total_fixtures, total_home, weighted_diff_sum) \<Rightarrow>
                              ebind (if total_fixtures > 0
                                     then truediv weighted_diff_sum (real_of_int total_fixtures)
                                     else Inr 0)
                                (\<lambda>avg_difficulty.
                                   Inr (hm((team_id, event) \<mapsto>
                                          (total_fixtures, avg_difficulty, total_home)))))
                       all_events horizon_map)
           (drop_duplicates (map tf_team_id team_fixtures))
           Map.empty"

subsection \<open>The feature table\<close>

text \<open>Lines 295 to 321: the history frame with its nulls filled, grouped by player and
  sorted by kickoff, round and fixture.\<close>

definition xgi_proxy :: "history_row \<Rightarrow> real" where
  "xgi_proxy h =
     (case h_expected_goal_involvements h of
        Some v \<Rightarrow> v
      | None \<Rightarrow> fillna 0 (h_expected_goals h) + fillna 0 (h_expected_assists h))"

definition match_of :: "(string option \<Rightarrow> int option) \<Rightarrow> history_row \<Rightarrow> match_record" where
  "match_of to_datetime h =
     \<lparr>m_kickoff_dt = to_datetime (h_kickoff_time h),
      m_round = fillna 0 (h_round h),
      m_minutes = fillna 0 (h_minutes h),
      m_points = fillna 0 (h_total_points h),
      m_xgi = xgi_proxy h,
      m_price = fillna 0 (h_value h) / 10\<rparr>"

definition player_history ::
  "(string option \<Rightarrow> int option) \<Rightarrow> history_row list \<Rightarrow> int \<Rightarrow> match_record list" where
  "player_history to_datetime history player_id =
     (let grp = filter (\<lambda>h. h_player_id h = player_id) history;
          grp_sorted =
            sort_key (\<lambda>h. (na_last (to_datetime (h_kickoff_time h)), fillna 0 (h_round h),
                           h_fixture_id h)) grp
      in map (match_of to_datetime) grp_sorted)"

text \<open>Lines 330 to 339: the records of a player's history that pass \<^verbatim>\<open>_is_prior_match\<close>.\<close>

definition prior_matches :: "match_record list \<Rightarrow> int option \<Rightarrow> int \<Rightarrow> match_record list" where
  "prior_matches history_rows target_dt target_event =
     filter (\<lambda>h. is_prior_match (m_kickoff_dt h) (m_round h) target_dt target_event) history_rows"

type_synonym dgw_map = "(int \<times> int) \<rightharpoonup> int"

type_synonym name_map = "int \<rightharpoonup> string"

definition dgw_count_map :: "team_fixture list \<Rightarrow> dgw_map" where
  "dgw_count_map team_fixtures key =
     (let rows = filter (\<lambda>r. (tf_team_id r, tf_event r) = key) team_fixtures
      in if rows = [] then None else Some (int (length rows)))"

definition team_name_map :: "player_row list \<Rightarrow> name_map" where
  "team_name_map players =
     dict_of (drop_duplicates (map (\<lambda>p. (pl_team_id p, pl_team p)) players))"

text \<open>
  Lines 341 to 398: the part of the loop body that reads the prior records. It receives the
  list \<open>prior\<close> and nothing else of the history.
\<close>

definition feature_row_of ::
  "dgw_map \<Rightarrow> horizon_map \<Rightarrow> rest_days_map \<Rightarrow> name_map \<Rightarrow> int \<Rightarrow>
   player_row \<Rightarrow> team_fixture \<Rightarrow> match_record list \<Rightarrow> error + feature_row" where
  "feature_row_of dgw_counts horizon_map rest_days_map team_names horizon row_p row_t prior =
     (let player_id = pl_player_id row_p;
          target_event = tf_event row_t;
          prior_minutes = map m_minutes prior;
          prior_points = map m_points prior;
          prior_xgi = map m_xgi prior;
          prior_prices = filter (\<lambda>v. v > 0) (map m_price prior)
      in ebind (rolling_std prior_minutes 5) (\<lambda>std_minutes.
         let minutes_volatility_5 = std_minutes / 90
         in ebind (rolling_std prior_points 5) (\<lambda>points_volatility_5.
            ebind (compute_benching_probability (last_n prior_minutes 5)) (\<lambda>benching_probability.
            let injury_flag = (if lower (str_of (pl_status row_p)) = ''a'' then 0 else 1);
                risk_score = compute_risk_score benching_probability minutes_volatility_5 injury_flag;
                dgw_count = (case dgw_counts (pl_team_id row_p, target_event) of
                               None \<Rightarrow> 1 | Some c \<Rightarrow> c);
                hz = (case horizon_map (pl_team_id row_p, target_event) of
                        None \<Rightarrow> (0, 0, 0) | Some v \<Rightarrow> v);
                rest_days = (case rest_days_map (pl_team_id row_p, tf_fixture_id row_t) of
                               None \<Rightarrow> None | Some v \<Rightarrow> v);
                opponent_team_id = tf_opponent_team_id row_t
            in ebind (rolling_mean prior_points 3) (\<lambda>recent_points_avg_3.
               ebind (rolling_mean prior_points 5) (\<lambda>recent_points_avg_5.
               ebind (rolling_mean prior_minutes 3) (\<lambda>recent_minutes_avg_3.
               ebind (rolling_mean prior_minutes 5) (\<lambda>recent_minutes_avg_5.
               ebind (rolling_mean prior_xgi 3) (\<lambda>recent_xgi_avg_3.
               ebind (rolling_mean prior_xgi 5) (\<lambda>recent_xgi_avg_5.
               Inr \<lparr>f_player_id = player_id,
                    f_player_name = pl_player_name row_p,
                    f_team_id = pl_team_id row_p,
                    f_team = pl_team row_p,
                    f_position = pl_position row_p,
                    f_fixture_id = tf_fixture_id row_t,
                    f_target_event = target_event,
                    f_kickoff_time = (case tf_kickoff_time row_t of None \<Rightarrow> [] | Some s \<Rightarrow> s),
                    f_is_home = tf_is_home row_t,
                    f_opponent_team_id = opponent_team_id,
                    f_opponent_team = (case team_names opponent_team_id of
                                         None \<Rightarrow> ''UNK'' | Some n \<Rightarrow> n),
                    f_opponent_difficulty = tf_opponent_difficulty row_t,
                    f_dgw_count_in_event = dgw_count,
                    f_is_dgw = (if dgw_count > 1 then 1 else 0),
                    f_rest_days = rest_days,
                    f_horizon = max 1 horizon,
                    f_horizon_fixture_count_team = fst hz,
                    f_horizon_avg_fixture_difficulty = fst (snd hz),
                    f_horizon_home_count = snd (snd hz),
                    f_recent_points_avg_3 = recent_points_avg_3,
                    f_recent_points_avg_5 = recent_points_avg_5,
                    f_recent_minutes_avg_3 = recent_minutes_avg_3,
                    f_recent_minutes_avg_5 = recent_minutes_avg_5,
                    f_recent_xgi_avg_3 = recent_xgi_avg_3,
                    f_recent_xgi_avg_5 = recent_xgi_avg_5,
                    f_minutes_volatility_5 = minutes_volatility_5,
                    f_points_volatility_5 = points_volatility_5,
                    f_benching_probability = benching_probability,
                    f_risk_score = risk_score,
                    f_last_price = (if prior_prices \<noteq> [] then last prior_prices
                                    else pl_now_cost row_p),
                    f_current_status = str_of (pl_status row_p)\<rparr>))))))))))"

text \<open>Lines 324 to 398: the whole loop body for one target row.\<close>

definition build_feature_row ::
  "(int \<Rightarrow> match_record list) \<Rightarrow> dgw_map \<Rightarrow> horizon_map \<Rightarrow> rest_days_map \<Rightarrow>
   name_map \<Rightarrow> int \<Rightarrow> player_row \<times> team_fixture \<Rightarrow> error + feature_row" where
  "build_feature_row history_of dgw_counts horizon_map rest_days_map team_names horizon row =
     (let player_id = pl_player_id (fst row);
          target_event = tf_event (snd row);
          target_dt = tf_kickoff_dt (snd row);
          history_rows = history_of player_id;
          prior = prior_matches history_rows target_dt target_event
      in feature_row_of dgw_counts horizon_map rest_days_map team_names horizon
           (fst row) (snd row) prior)"

text \<open>Lines 271 to 274: the target filter on the team fixtures.\<close>

definition target_filter :: "bool \<Rightarrow> team_fixture list \<Rightarrow> team_fixture list" where
  "target_filter include_finished team_fixtures =
     (let target_team_fixtures =
            (if \<not> include_finished then filter (\<lambda>r. tf_finished r = 0) team_fixtures
             else team_fixtures)
      in filter (\<lambda>r. tf_event r > 0) target_team_fixtures)"

text \<open>Lines 278 to 293: the inner join of players with target fixtures on the team.\<close>

definition merge_targets ::
  "player_row list \<Rightarrow> team_fixture list \<Rightarrow> (player_row \<times> team_fixture) list" where
  "merge_targets players target_team_fixtures =
     concat (map (\<lambda>p. map (\<lambda>t. (p, t))
                         (filter (\<lambda>t. tf_team_id t = pl_team_id p) target_team_fixtures))
                 players)"

type_synonym files = "string \<rightharpoonup> feature_row list"

text \<open>
  \<^verbatim>\<open>build_feature_table\<close>. The database file is \<open>None\<close> when the path does not exist. The
  only effect is the parquet file written at the end: \<open>fs\<close> maps a path to the rows
  stored there, and the function returns the file system it leaves behind together with
  the raised error or the returned pair of counts.
\<close>

definition build_feature_table ::
  "(string option \<Rightarrow> int option) \<Rightarrow> database option \<Rightarrow> string \<Rightarrow> int \<Rightarrow> bool \<Rightarrow> files \<Rightarrow>
   (error + (int \<times> int)) \<times> files" where
  "build_feature_table to_datetime db output_path horizon include_finished fs =
     (case db of
        None \<Rightarrow> (Inl (FileNotFoundError ''SQLite DB not found''), fs)
      | Some d \<Rightarrow>
        let players = db_players d; fixtures = db_fixtures d; history = db_history d
        in if players = [] \<or> fixtures = []
           then (Inl (ValueError ''Missing source data in DB (players/fixtures)''), fs)
           else
             let team_fixtures = build_team_fixture_rows to_datetime fixtures;
                 team_names = team_name_map players;
                 dgw_counts = dgw_count_map team_fixtures;
                 rest_days_map = build_rest_days_map team_fixtures
             in (case build_horizon_map team_fixtures (max 1 horizon) of
                  Inl e \<Rightarrow> (Inl e, fs)
                | Inr horizon_map \<Rightarrow>
                  (let target_team_fixtures = target_filter include_finished team_fixtures
                   in if target_team_fixtures = []
                      then (Inl (ValueError ''No target fixtures found after filtering''), fs)
                      else
                        let target_rows = merge_targets players target_team_fixtures;
                            history_of = player_history to_datetime history
                        in (case mapE (build_feature_row history_of dgw_counts horizon_map
                                         rest_days_map team_names horizon) target_rows of
                              Inl e \<Rightarrow> (Inl e, fs)
                            | Inr feature_rows \<Rightarrow>
                              (let feature_df =
                                     sort_key (\<lambda>r. (f_target_event r, f_fixture_id r,
                                                    f_team_id r, f_player_id r)) feature_rows
                               in (Inr (int (length target_rows), int (length feature_df)),
                                   fs(output_path \<mapsto> feature_df)))))))"

section \<open>phase2\_rank\_players.py\<close>

record candidate =
  player :: string
  team :: string
  position :: string
  price :: real
  next_opponent :: string
  minutes_avg :: real
  xg90 :: real
  xa90 :: real
  attack_raw :: real
  minutes_raw :: real
  value_raw :: real
  fixture_home :: int
  attack_norm :: real
  minutes_norm :: real
  value_norm :: real
  score :: real
  rank_position :: int

text \<open>A row of the input CSV, as \<^verbatim>\<open>csv.DictReader\<close> yields it; \<open>row_get\<close> is
  \<^verbatim>\<open>row.get(key, default)\<close>.\<close>

type_synonym csv_row = "string \<rightharpoonup> string"

definition row_get :: "csv_row \<Rightarrow> string \<Rightarrow> string \<Rightarrow> string" where
  "row_get row key dflt = (case row key of None \<Rightarrow> dflt | Some v \<Rightarrow> v)"

definition parse_float :: "(string \<Rightarrow> real option) \<Rightarrow> string \<Rightarrow> real" where
  "parse_float py_float v = (case py_float v of Some x \<Rightarrow> x | None \<Rightarrow> 0)"

definition clamp :: "real \<Rightarrow> real \<Rightarrow> real \<Rightarrow> real" where
  "clamp v low high = max low (min v high)"

definition parse_fixture_home :: "string \<Rightarrow> int" where
  "parse_fixture_home next_opp = (if endswith (strip next_opp) ''(H)'' then 1 else 0)"

text \<open>Python's \<^verbatim>\<open>min\<close> and \<^verbatim>\<open>max\<close> of a list raise \<^verbatim>\<open>ValueError\<close> on the empty list.\<close>

definition py_min :: "real list \<Rightarrow> error + real" where
  "py_min values =
     (case values of
        [] \<Rightarrow> Inl (ValueError ''min() arg is an empty sequence'')
      | v # vs \<Rightarrow> Inr (fold (\<lambda>x acc. if x < acc then x else acc) vs v))"

definition py_max :: "real list \<Rightarrow> error + real" where
  "py_max values =
     (case values of
        [] \<Rightarrow> Inl (ValueError ''max() arg is an empty sequence'')
      | v # vs \<Rightarrow> Inr (fold (\<lambda>x acc. if x > acc then x else acc) vs v))"

definition minmax_normalize :: "real list \<Rightarrow> error + real list" where
  "minmax_normalize values =
     (if values = [] then Inr []
      else ebind (py_min values) (\<lambda>min_v.
           ebind (py_max values) (\<lambda>max_v.
           if max_v = min_v then Inr (map (\<lambda>_. 0.5) values)
           else let span = max_v - min_v
                in mapE (\<lambda>v. truediv (v - min_v) span) values)))"

text \<open>
  \<^verbatim>\<open>round(x, ndigits)\<close> on a float rounds to the nearest multiple of ten to the power
  \<open>- ndigits\<close>, a tie going to the even one.
\<close>

definition round_half_even :: "real \<Rightarrow> int" where
  "round_half_even x =
     (let f = \<lfloor>x\<rfloor>; d = x - real_of_int f
      in if d < 1 / 2 then f
         else if d > 1 / 2 then f + 1
         else if even f then f else f + 1)"

definition py_round :: "real \<Rightarrow> nat \<Rightarrow> real" where
  "py_round x ndigits = real_of_int (round_half_even (x * 10 ^ ndigits)) / 10 ^ ndigits"

definition compute_weighted_score ::
  "real \<Rightarrow> real \<Rightarrow> real \<Rightarrow> real \<Rightarrow> real \<Rightarrow> real \<Rightarrow> real \<Rightarrow> real \<Rightarrow> real" where
  "compute_weighted_score attack_n minutes_n value_n fixture_n w_attack w_minutes w_value w_fixture =
     (let sc = w_attack * attack_n + w_minutes * minutes_n + w_value * value_n
               + w_fixture * fixture_n
      in py_round sc 6)"

text \<open>The defaults of the four weight options of the command line (lines 350 to 353).\<close>

definition default_weights :: "real \<times> real \<times> real \<times> real" where
  "default_weights = (0.50, 0.25, 0.20, 0.05)"

text \<open>The body of the loop of \<^verbatim>\<open>build_candidates\<close>: \<open>None\<close> where the row is skipped by
  \<^verbatim>\<open>continue\<close>.\<close>

definition candidate_of_row ::
  "(string \<Rightarrow> real option) \<Rightarrow> string set \<Rightarrow> real \<Rightarrow> csv_row \<Rightarrow> error + candidate option" where
  "candidate_of_row py_float allowed_positions min_minutes_avg row =
     (let pos = upper (strip (row_get row ''position'' []))
      in if pos \<notin> allowed_positions then Inr None
         else
           let minutes_avg_v = parse_float py_float (row_get row ''minutes_avg'' ''0'');
               xg90_v = parse_float py_float (row_get row ''xg90'' ''0'');
               xa90_v = parse_float py_float (row_get row ''xa90'' ''0'')
           in if minutes_avg_v < min_minutes_avg then Inr None
              else if (xg90_v + xa90_v) \<le> 0 then Inr None
              else
                let price_v = parse_float py_float (row_get row ''price'' ''0'');
                    attack_raw_v = xg90_v + (0.7 * xa90_v);
                    minutes_raw_v = clamp (minutes_avg_v / 90) 0 1
                in ebind (if price_v > 0 then truediv attack_raw_v price_v else Inr 0)
                     (\<lambda>value_raw_v.
                   let fixture_home_v = parse_fixture_home (row_get row ''next_opponent'' [])
                   in Inr (Some
                        \<lparr>player = strip (row_get row ''player'' []),
                         team = strip (row_get row ''team'' []),
                         position = pos,
                         price = price_v,
                         next_opponent = strip (row_get row ''next_opponent'' []),
                         minutes_avg = minutes_avg_v,
                         xg90 = xg90_v,
                         xa90 = xa90_v,
                         attack_raw = attack_raw_v,
                         minutes_raw = minutes_raw_v,
                         value_raw = value_raw_v,
                         fixture_home = fixture_home_v,
                         attack_norm = 0,
                         minutes_norm = 0,
                         value_norm = 0,
                         score = 0,
                         rank_position = 0\<rparr>)))"

fun build_candidates ::
  "(string \<Rightarrow> real option) \<Rightarrow> csv_row list \<Rightarrow> string list \<Rightarrow> real \<Rightarrow> error + candidate list" where
  "build_candidates py_float [] positions min_minutes_avg = Inr []"
| "build_candidates py_float (row # rows) positions min_minutes_avg =
     ebind (candidate_of_row py_float (set positions) min_minutes_avg row) (\<lambda>c.
     ebind (build_candidates py_float rows positions min_minutes_avg) (\<lambda>candidates.
     Inr (case c of None \<Rightarrow> candidates | Some c' \<Rightarrow> c' # candidates)))"

text \<open>The sort key of \<^verbatim>\<open>rank_candidates\<close>; tuples compare lexicographically.\<close>

definition rank_key :: "candidate \<Rightarrow> real \<times> real \<times> real \<times> string \<times> string" where
  "rank_key c = (- score c, - value_raw c, price c, player c, team c)"

text \<open>\<^verbatim>\<open>enumerate(top_group, start=1)\<close> with the assignment of the rank.\<close>

definition assign_ranks :: "candidate list \<Rightarrow> candidate list" where
  "assign_ranks top_group =
     map (\<lambda>(idx, c). c\<lparr>rank_position := int idx\<rparr>) (enumerate 1 top_group)"

text \<open>
  \<^verbatim>\<open>rank_candidates\<close>. The candidates are mutable objects in the source; here the scored
  copies are passed on. \<open>score_candidates\<close> is the first loop (lines 212 to 222);
  \<open>top_group\<close> is the sorted and cut group of one position (lines 231 to 241), where
  \<^verbatim>\<open>grouped.get(position, [])\<close> holds the candidates of that position in their order and
  \<^verbatim>\<open>list.sort\<close> is a stable sort, as \<open>sort_key\<close> is. The state of the loop over the
  positions is \<^verbatim>\<open>(ranked, rows_by_position)\<close>.
\<close>

definition score_candidates ::
  "candidate list \<Rightarrow> real \<Rightarrow> real \<Rightarrow> real \<Rightarrow> real \<Rightarrow> candidate list" where
  "score_candidates candidates w_attack w_minutes w_value w_fixture =
     map (\<lambda>c. c\<lparr>score := compute_weighted_score (attack_norm c) (minutes_norm c)
                           (value_norm c) (real_of_int (fixture_home c))
                           w_attack w_minutes w_value w_fixture\<rparr>) candidates"

definition top_group :: "candidate list \<Rightarrow> string \<Rightarrow> int \<Rightarrow> candidate list" where
  "top_group scored pos top_n_per_position =
     (let grp = sort_key rank_key (filter (\<lambda>c. position c = pos) scored)
      in take (nat (max 0 top_n_per_position)) grp)"

definition rank_candidates ::
  "candidate list \<Rightarrow> string list \<Rightarrow> int \<Rightarrow> real \<Rightarrow> real \<Rightarrow> real \<Rightarrow> real \<Rightarrow>
   candidate list \<times> (string \<rightharpoonup> int)" where
  "rank_candidates candidates positions top_n_per_position w_attack w_minutes w_value w_fixture =
     (let scored = score_candidates candidates w_attack w_minutes w_value w_fixture
      in fold (\<lambda>pos (ranked, rows_by_position).
                 let top = top_group scored pos top_n_per_position
                 in (ranked @ assign_ranks top, rows_by_position(pos \<mapsto> int (length top))))
              positions ([], Map.empty))"

section \<open>The properties in the words of the specification\<close>

text \<open>The share of the observations of a history that satisfy a condition.\<close>

definition observed_rate :: "(real \<Rightarrow> bool) \<Rightarrow> real list \<Rightarrow> real" where
  "observed_rate P xs = real (length (filter P xs)) / real (length xs)"

text \<open>Clamping a value to an interval, by cases.\<close>

definition clamp_spec :: "real \<Rightarrow> real \<Rightarrow> real \<Rightarrow> real" where
  "clamp_spec x lo hi = (if x < lo then lo else if hi < x then hi else x)"

text \<open>
  A history record is strictly prior to a target: by the kickoff timestamps when both are
  known, otherwise by the round against the event.
\<close>

definition strictly_prior :: "match_record \<Rightarrow> team_fixture \<Rightarrow> bool" where
  "strictly_prior h t =
     (case (m_kickoff_dt h, tf_kickoff_dt t) of
        (Some a, Some b) \<Rightarrow> a < b
      | _ \<Rightarrow> m_round h < tf_event t)"

text \<open>
  The documented order of a position group: descending by score, then descending by
  \<open>value_raw\<close>, then ascending by price, by player name and by team label.
\<close>

definition ranks_before :: "candidate \<Rightarrow> candidate \<Rightarrow> bool" where
  "ranks_before c d =
     (score c > score d \<or> (score c = score d \<and>
       (value_raw c > value_raw d \<or> (value_raw c = value_raw d \<and>
         (price c < price d \<or> (price c = price d \<and>
           (player c < player d \<or> (player c = player d \<and> team c \<le> team d))))))))"

text \<open>A fixture is a target: unfinished unless finished ones are included, and in a
  positive event.\<close>

definition is_target_fixture :: "bool \<Rightarrow> fixture_row \<Rightarrow> bool" where
  "is_target_fixture include_finished fx =
     ((include_finished \<or> fx_finished fx = None \<or> fx_finished fx = Some 0) \<and>
      (\<exists>e. fx_event fx = Some e \<and> e > 0))"

section \<open>Sample data\<close>

text \<open>Concrete inputs on which the properties below are evaluated.\<close>

definition sample_candidate :: "string \<Rightarrow> string \<Rightarrow> real \<Rightarrow> real \<Rightarrow> real \<Rightarrow> candidate" where
  "sample_candidate name pos attack_n value_r price_v =
     \<lparr>player = name, team = ''ARS'', position = pos, price = price_v,
      next_opponent = ''CHE (A)'', minutes_avg = 90, xg90 = 1, xa90 = 0,
      attack_raw = 1, minutes_raw = 1, value_raw = value_r, fixture_home = 0,
      attack_norm = attack_n, minutes_norm = 0, value_norm = 0, score = 0,
      rank_position = 0\<rparr>"

definition sample_float :: "string \<Rightarrow> real option" where
  "sample_float s =
     (if s = ''0'' then Some 0 else if s = ''1'' then Some 1 else if s = ''2'' then Some 2
      else if s = ''90'' then Some 90 else None)"

definition sample_row :: "string \<Rightarrow> string \<Rightarrow> string \<Rightarrow> csv_row" where
  "sample_row name price_s opp =
     [''player'' \<mapsto> name, ''team'' \<mapsto> ''ARS'', ''position'' \<mapsto> '' mid'',
      ''price'' \<mapsto> price_s, ''next_opponent'' \<mapsto> opp, ''minutes_avg'' \<mapsto> ''90'',
      ''xg90'' \<mapsto> ''1'', ''xa90'' \<mapsto> ''0'']"

text \<open>
  A database with one player of team 1, a finished fixture in event 2, two unfinished
  fixtures of team 1 in event 4 (a double gameweek) and one in event 5; the player has
  three history records, the one of round 3 without a kickoff time. \<open>sample_rows\<close> is
  the feature table expected for it with horizon 3.
\<close>

definition sample_to_datetime :: "string option \<Rightarrow> int option" where
  "sample_to_datetime v =
     (case v of
        None \<Rightarrow> None
      | Some s \<Rightarrow> map_of [(''2024-08-17'', 1723852800000000000),
                          (''2024-08-31'', 1725062400000000000),
                          (''2024-09-01'', 1725148800000000000),
                          (''2024-09-14'', 1726272000000000000)] s)"

definition sample_db :: database where
  "sample_db =
     \<lparr>db_players =
        [\<lparr>pl_player_id = 1, pl_player_name = ''Bukayo Saka'', pl_team_id = 1, pl_team = ''ARS'',
          pl_position = ''MID'', pl_now_cost = 100, pl_status = Some ''a''\<rparr>],
      db_fixtures =
        [\<lparr>fx_fixture_id = 20, fx_event = Some 2, fx_kickoff_time = Some ''2024-08-17'',
          fx_finished = Some 1, fx_team_h = 1, fx_team_a = 2,
          fx_team_h_difficulty = Some 2, fx_team_a_difficulty = Some 4\<rparr>,
         \<lparr>fx_fixture_id = 40, fx_event = Some 4, fx_kickoff_time = Some ''2024-08-31'',
          fx_finished = Some 0, fx_team_h = 1, fx_team_a = 3,
          fx_team_h_difficulty = Some 3, fx_team_a_difficulty = Some 4\<rparr>,
         \<lparr>fx_fixture_id = 41, fx_event = Some 4, fx_kickoff_time = Some ''2024-09-01'',
          fx_finished = Some 0, fx_team_h = 2, fx_team_a = 1,
          fx_team_h_difficulty = Some 2, fx_team_a_difficulty = Some 5\<rparr>,
         \<lparr>fx_fixture_id = 50, fx_event = Some 5, fx_kickoff_time = Some ''2024-09-14'',
          fx_finished = Some 0, fx_team_h = 3, fx_team_a = 1,
          fx_team_h_difficulty = Some 2, fx_team_a_difficulty = Some 4\<rparr>],
      db_history =
        [\<lparr>h_player_id = 1, h_fixture_id = 20, h_round = Some 2,
          h_kickoff_time = Some ''2024-08-17'', h_minutes = Some 90, h_total_points = Some 6,
          h_expected_goal_involvements = Some 0.5, h_expected_goals = Some 0.3,
          h_expected_assists = Some 0.2, h_value = Some 100\<rparr>,
         \<lparr>h_player_id = 1, h_fixture_id = 30, h_round = Some 3,
          h_kickoff_time = None, h_minutes = Some 90, h_total_points = Some 2,
          h_expected_goal_involvements = None, h_expected_goals = Some 0.2,
          h_expected_assists = Some 0.1, h_value = Some 101\<rparr>,
         \<lparr>h_player_id = 1, h_fixture_id = 40, h_round = Some 4,
          h_kickoff_time = Some ''2024-08-31'', h_minutes = Some 90, h_total_points = Some 10,
          h_expected_goal_involvements = Some 1, h_expected_goals = Some 0.6,
          h_expected_assists = Some 0.4, h_value = Some 102\<rparr>]\<rparr>"

definition sample_rows :: "feature_row list" where
  "sample_rows =
     [\<lparr>f_player_id = 1, f_player_name = ''Bukayo Saka'', f_team_id = 1, f_team = ''ARS'',
       f_position = ''MID'', f_fixture_id = 40, f_target_event = 4,
       f_kickoff_time = ''2024-08-31'', f_is_home = 1, f_opponent_team_id = 3,
       f_opponent_team = ''UNK'', f_opponent_difficulty = 3, f_dgw_count_in_event = 2,
       f_is_dgw = 1, f_rest_days = Some 14, f_horizon = 3, f_horizon_fixture_count_team = 3,
       f_horizon_avg_fixture_difficulty = 4, f_horizon_home_count = 1,
       f_recent_points_avg_3 = 4, f_recent_points_avg_5 = 4,
       f_recent_minutes_avg_3 = 90, f_recent_minutes_avg_5 = 90,
       f_recent_xgi_avg_3 = 0.4, f_recent_xgi_avg_5 = 0.4,
       f_minutes_volatility_5 = 0, f_points_volatility_5 = 2,
       f_benching_probability = 0, f_risk_score = 0, f_last_price = 10.1,
       f_current_status = ''a''\<rparr>,
      \<lparr>f_player_id = 1, f_player_name = ''Bukayo Saka'', f_team_id = 1, f_team = ''ARS'',
       f_position = ''MID'', f_fixture_id = 41, f_target_event = 4,
       f_kickoff_time = ''2024-09-01'', f_is_home = 0, f_opponent_team_id = 2,
       f_opponent_team = ''UNK'', f_opponent_difficulty = 5, f_dgw_count_in_event = 2,
       f_is_dgw = 1, f_rest_days = Some 1, f_horizon = 3, f_horizon_fixture_count_team = 3,
       f_horizon_avg_fixture_difficulty = 4, f_horizon_home_count = 1,
       f_recent_points_avg_3 = 6, f_recent_points_avg_5 = 6,
       f_recent_minutes_avg_3 = 90, f_recent_minutes_avg_5 = 90,
       f_recent_xgi_avg_3 = 0.6, f_recent_xgi_avg_5 = 0.6,
       f_minutes_volatility_5 = 0, f_points_volatility_5 = sqrt (32 / 3),
       f_benching_probability = 0, f_risk_score = 0, f_last_price = 10.1,
       f_current_status = ''a''\<rparr>,
      \<lparr>f_player_id = 1, f_player_name = ''Bukayo Saka'', f_team_id = 1, f_team = ''ARS'',
       f_position = ''MID'', f_fixture_id = 50, f_target_event = 5,
       f_kickoff_time = ''2024-09-14'', f_is_home = 0, f_opponent_team_id = 3,
       f_opponent_team = ''UNK'', f_opponent_difficulty = 4, f_dgw_count_in_event = 1,
       f_is_dgw = 0, f_rest_days = Some 13, f_horizon = 3, f_horizon_fixture_count_team = 1,
       f_horizon_avg_fixture_difficulty = 4, f_horizon_home_count = 0,
       f_recent_points_avg_3 = 6, f_recent_points_avg_5 = 6,
       f_recent_minutes_avg_3 = 90, f_recent_minutes_avg_5 = 90,
       f_recent_xgi_avg_3 = 0.6, f_recent_xgi_avg_5 = 0.6,
       f_minutes_volatility_5 = 0, f_points_volatility_5 = sqrt (32 / 3),
       f_benching_probability = 0, f_risk_score = 0, f_last_price = 10.1,
       f_current_status = ''a''\<rparr>]"

section \<open>Auxiliary facts\<close>

lemma truediv_ok: "b \<noteq> 0 \<Longrightarrow> truediv a b = Inr (a / b)"
  by (simp add: truediv_def)

lemma ebind_Inr: "ebind (Inr x) f = f x"
  by (simp add: ebind_def)

lemma ebind_Inl: "ebind (Inl e) f = Inl e"
  by (simp add: ebind_def)

lemma ebind_eq_Inr: "ebind m f = Inr y \<longleftrightarrow> (\<exists>x. m = Inr x \<and> f x = Inr y)"
  by (cases m) (simp_all add: ebind_def)

lemma sum_list_ones: "sum_list (map (\<lambda>m. 1::real) xs) = real (length xs)"
  by (induction xs) simp_all

lemma clamp_spec_max_min: "lo \<le> hi \<Longrightarrow> max lo (min hi x) = clamp_spec x lo hi"
  by (simp add: clamp_spec_def max_def min_def)

section \<open>The risk model\<close>

lemma benching_nonempty:
  assumes "xs \<noteq> []"
  shows "compute_benching_probability xs =
     Inr (clamp_spec (0.6 * observed_rate (\<lambda>m. m = 0) xs
                    + 0.3 * observed_rate (\<lambda>m. 0 < m \<and> m < 60) xs
                    + 0.1 * (1 - observed_rate (\<lambda>m. m \<ge> 60) xs)) 0 1)"
proof -
  from assms have n: "real (length xs) \<noteq> 0" by simp
  show ?thesis
    using assms
    by (simp add: compute_benching_probability_def Let_def truediv_ok [OF n] ebind_Inr
        sum_list_ones observed_rate_def clamp_spec_max_min mult.commute)
qed

text \<open>
  Claim C2, as the code has it: on the history \<open>[90, 90, 90, 90, 90]\<close> every observation is
  a start, so the start rate is 1, the two other rates are 0, and
  \<^verbatim>\<open>compute_benching_probability\<close> returns exactly 0.
\<close>

theorem benching_five_starts_is_zero:
  "compute_benching_probability [90, 90, 90, 90, 90] = Inr 0"
  by (simp add: compute_benching_probability_def Let_def truediv_def ebind_def)

text \<open>Claim C2 as stated fails: the value returned on \<open>[90, 90, 90, 90, 90]\<close> is not 0.1.\<close>

theorem benching_five_starts_not_tenth:
  "compute_benching_probability [90, 90, 90, 90, 90] \<noteq> Inr 0.1"
  by (simp add: compute_benching_probability_def Let_def truediv_def ebind_def)

text \<open>
  Claim C3: on the empty history \<^verbatim>\<open>compute_benching_probability\<close> returns 1; on a
  non-empty history it returns \<open>0.6 * dnp_rate + 0.3 * cameo_rate + 0.1 * (1 - start_rate)\<close>
  clamped to the unit interval, where the three rates are the shares of the observations
  with no minutes, with minutes strictly between 0 and 60, and with at least 60 minutes;
  it never raises, and its result always lies between 0 and 1.
\<close>

theorem benching_probability_contract:
  "compute_benching_probability [] = Inr 1 \<and>
   (xs \<noteq> [] \<longrightarrow> compute_benching_probability xs =
      Inr (clamp_spec (0.6 * observed_rate (\<lambda>m. m = 0) xs
                     + 0.3 * observed_rate (\<lambda>m. 0 < m \<and> m < 60) xs
                     + 0.1 * (1 - observed_rate (\<lambda>m. m \<ge> 60) xs)) 0 1)) \<and>
   (\<exists>p. compute_benching_probability xs = Inr p \<and> 0 \<le> p \<and> p \<le> 1)"
proof (intro conjI impI)
  show "compute_benching_probability [] = Inr 1"
    by (simp add: compute_benching_probability_def)
next
  assume "xs \<noteq> []"
  then show "compute_benching_probability xs =
      Inr (clamp_spec (0.6 * observed_rate (\<lambda>m. m = 0) xs
                     + 0.3 * observed_rate (\<lambda>m. 0 < m \<and> m < 60) xs
                     + 0.1 * (1 - observed_rate (\<lambda>m. m \<ge> 60) xs)) 0 1)"
    by (rule benching_nonempty)
next
  show "\<exists>p. compute_benching_probability xs = Inr p \<and> 0 \<le> p \<and> p \<le> 1"
  proof (cases "xs = []")
    case True
    then show ?thesis by (simp add: compute_benching_probability_def)
  next
    case False
    then show ?thesis by (simp add: benching_nonempty clamp_spec_def)
  qed
qed

text \<open>Witness for C3: the history \<open>[90, 0, 30, 0, 90]\<close> has two starts, one cameo and two
  absences, which gives 0.36.\<close>

theorem benching_probability_contract_witness:
  "[90, 0, 30, 0, 90] \<noteq> ([] :: real list) \<and>
   compute_benching_probability [90, 0, 30, 0, 90] = Inr (9 / 25)"
  using benching_probability_contract [of "[90, 0, 30, 0, 90]"]
  by (simp add: observed_rate_def clamp_spec_def)

text \<open>
  Claim C4: \<^verbatim>\<open>compute_risk_score\<close> is \<open>0.55 * benching + 0.30 * clamp(volatility, 0, 1) +
  0.15 * injury_flag\<close> clamped to the unit interval; its result lies between 0 and 1, and
  it is non-decreasing in each of its three arguments, the two others held fixed.
\<close>

theorem risk_score_contract:
  "compute_risk_score b v i =
     clamp_spec (0.55 * b + 0.30 * clamp_spec v 0 1 + 0.15 * real_of_int i) 0 1 \<and>
   0 \<le> compute_risk_score b v i \<and> compute_risk_score b v i \<le> 1 \<and>
   (b \<le> b' \<longrightarrow> compute_risk_score b v i \<le> compute_risk_score b' v i) \<and>
   (v \<le> v' \<longrightarrow> compute_risk_score b v i \<le> compute_risk_score b v' i) \<and>
   (i \<le> i' \<longrightarrow> compute_risk_score b v i \<le> compute_risk_score b v i')"
proof (intro conjI impI)
  show "compute_risk_score b v i =
      clamp_spec (0.55 * b + 0.30 * clamp_spec v 0 1 + 0.15 * real_of_int i) 0 1"
    unfolding compute_risk_score_def Let_def
    by (simp only: clamp_spec_max_min zero_le_one)
  show "0 \<le> compute_risk_score b v i" "compute_risk_score b v i \<le> 1"
    by (simp_all add: compute_risk_score_def Let_def)
  show "compute_risk_score b v i \<le> compute_risk_score b' v i" if "b \<le> b'"
    using that by (simp add: compute_risk_score_def Let_def max_def min_def)
  show "compute_risk_score b v i \<le> compute_risk_score b v' i" if "v \<le> v'"
    using that by (simp add: compute_risk_score_def Let_def max_def min_def)
  show "compute_risk_score b v i \<le> compute_risk_score b v i'" if "i \<le> i'"
    using that by (simp add: compute_risk_score_def Let_def max_def min_def)
qed

text \<open>Witness for C4: raising the benching probability from 0.2 to 0.6, the volatility
  from 0.1 to 0.4 and the injury flag from 0 to 1, each alone, does not lower the score.\<close>

theorem risk_score_contract_witness:
  "(0.2 :: real) \<le> 0.6 \<and> (0.1 :: real) \<le> 0.4 \<and> (0 :: int) \<le> 1 \<and>
   compute_risk_score 0.2 0.4 1 \<le> compute_risk_score 0.6 0.4 1 \<and>
   compute_risk_score 0.6 0.1 1 \<le> compute_risk_score 0.6 0.4 1 \<and>
   compute_risk_score 0.6 0.4 0 \<le> compute_risk_score 0.6 0.4 1 \<and>
   compute_risk_score 0.6 0.4 1 = 0.6"
  using risk_score_contract [of "0.2" "0.4" 1 "0.6" "0.4" 1]
    risk_score_contract [of "0.6" "0.1" 1 "0.6" "0.4" 1]
    risk_score_contract [of "0.6" "0.4" 0 "0.6" "0.4" 1]
  by (simp add: compute_risk_score_def)

section \<open>Min-max normalisation\<close>

lemma py_min_eq: "xs \<noteq> [] \<Longrightarrow> py_min xs = Inr (Min (set xs))"
proof -
  have f: "(\<lambda>x acc. if x < acc then x else acc) = (min :: real \<Rightarrow> real \<Rightarrow> real)"
    by (auto simp: min_def fun_eq_iff)
  assume "xs \<noteq> []"
  then obtain v vs where "xs = v # vs" by (cases xs) auto
  then show ?thesis
    by (simp add: py_min_def f Min.set_eq_fold [symmetric] del: set_simps)
qed

lemma py_max_eq: "xs \<noteq> [] \<Longrightarrow> py_max xs = Inr (Max (set xs))"
proof -
  have f: "(\<lambda>x acc. if x > acc then x else acc) = (max :: real \<Rightarrow> real \<Rightarrow> real)"
    by (auto simp: max_def fun_eq_iff)
  assume "xs \<noteq> []"
  then obtain v vs where "xs = v # vs" by (cases xs) auto
  then show ?thesis
    by (simp add: py_max_def f Max.set_eq_fold [symmetric] del: set_simps)
qed

lemma mapE_truediv: "d \<noteq> 0 \<Longrightarrow> mapE (\<lambda>v. truediv (v - m) d) xs = Inr (map (\<lambda>v. (v - m) / d) xs)"
  by (induction xs) (simp_all add: truediv_ok ebind_Inr)

lemma all_equal_iff:
  "xs \<noteq> [] \<Longrightarrow> (\<forall>v \<in> set xs. v = hd xs) \<longleftrightarrow> Max (set xs) = (Min (set xs) :: real)"
proof
  assume ne: "xs \<noteq> []" and eq: "\<forall>v \<in> set xs. v = hd xs"
  then have "set xs = {hd xs}" by (cases xs) auto
  then show "Max (set xs) = Min (set xs)" by simp
next
  assume ne: "xs \<noteq> []" and mm: "Max (set xs) = Min (set xs)"
  show "\<forall>v \<in> set xs. v = hd xs"
  proof
    fix v assume v: "v \<in> set xs"
    have h: "hd xs \<in> set xs" using ne by simp
    have "Min (set xs) \<le> v" "v \<le> Max (set xs)" "Min (set xs) \<le> hd xs" "hd xs \<le> Max (set xs)"
      using v h by simp_all
    with mm show "v = hd xs" by linarith
  qed
qed

lemma minmax_equal:
  assumes "xs \<noteq> []" "\<forall>v \<in> set xs. v = hd xs"
  shows "minmax_normalize xs = Inr (replicate (length xs) 0.5)"
  using assms all_equal_iff [OF assms(1)]
  by (simp add: minmax_normalize_def py_min_eq py_max_eq ebind_Inr map_replicate_const)

lemma minmax_spread:
  assumes "\<not> (xs \<noteq> [] \<and> (\<forall>v \<in> set xs. v = hd xs))"
  shows "minmax_normalize xs =
     Inr (map (\<lambda>v. (v - Min (set xs)) / (Max (set xs) - Min (set xs))) xs)"
proof (cases "xs = []")
  case True
  then show ?thesis by (simp add: minmax_normalize_def)
next
  case False
  with assms all_equal_iff [OF False] have "Max (set xs) \<noteq> Min (set xs)" by blast
  then show ?thesis
    using False
    by (simp add: minmax_normalize_def py_min_eq py_max_eq ebind_Inr Let_def mapE_truediv)
qed

lemma minmax_range:
  "\<exists>ys. minmax_normalize xs = Inr ys \<and> length ys = length xs \<and> (\<forall>y \<in> set ys. 0 \<le> y \<and> y \<le> 1)"
proof (cases "xs \<noteq> [] \<and> (\<forall>v \<in> set xs. v = hd xs)")
  case True
  then show ?thesis by (simp add: minmax_equal)
next
  case False
  have "0 \<le> (v - Min (set xs)) / (Max (set xs) - Min (set xs)) \<and>
        (v - Min (set xs)) / (Max (set xs) - Min (set xs)) \<le> 1" if "v \<in> set xs" for v
  proof -
    have a: "Min (set xs) \<le> v" "v \<le> Max (set xs)" using that by simp_all
    then have "0 \<le> v - Min (set xs)" "v - Min (set xs) \<le> Max (set xs) - Min (set xs)" by simp_all
    then show ?thesis by (simp add: divide_le_eq_1 zero_le_divide_iff) linarith
  qed
  then show ?thesis using minmax_spread [OF False] by auto
qed

text \<open>
  Claim C7: \<^verbatim>\<open>minmax_normalize\<close> maps a non-empty list whose elements are all equal to
  the list of the same length whose elements are all 0.5, in particular \<open>[2, 2, 2]\<close> to
  \<open>[0.5, 0.5, 0.5]\<close>; any other list it maps element by element to
  \<open>(v - min) / (max - min)\<close>; it never raises, and every output lies between 0 and 1.
\<close>

theorem minmax_normalize_contract:
  "(xs \<noteq> [] \<and> (\<forall>v \<in> set xs. v = hd xs) \<longrightarrow>
      minmax_normalize xs = Inr (replicate (length xs) 0.5)) \<and>
   minmax_normalize [2, 2, 2] = Inr [0.5, 0.5, 0.5] \<and>
   (\<not> (xs \<noteq> [] \<and> (\<forall>v \<in> set xs. v = hd xs)) \<longrightarrow>
      minmax_normalize xs =
        Inr (map (\<lambda>v. (v - Min (set xs)) / (Max (set xs) - Min (set xs))) xs)) \<and>
   (\<exists>ys. minmax_normalize xs = Inr ys \<and> length ys = length xs \<and>
         (\<forall>y \<in> set ys. 0 \<le> y \<and> y \<le> 1))"
proof (intro conjI impI)
  show "minmax_normalize [2, 2, 2] = Inr [0.5, 0.5, 0.5]"
    using minmax_equal [of "[2, 2, 2]"] by (simp add: numeral_3_eq_3)
qed (simp_all add: minmax_equal minmax_spread minmax_range)

text \<open>Witness for C7: a list with three different values and a constant list.\<close>

theorem minmax_normalize_contract_witness:
  "minmax_normalize [1, 2, 3] = Inr [0, 1 / 2, 1] \<and> minmax_normalize [4, 4] = Inr [1 / 2, 1 / 2]"
  using minmax_normalize_contract [of "[1, 2, 3]"] minmax_normalize_contract [of "[4, 4]"]
  by (simp add: numeral_2_eq_2)

section \<open>Building the candidates\<close>

lemma candidate_of_row_total:
  "\<exists>r. candidate_of_row py_float allowed mm row = Inr r \<and>
       (\<forall>c. r = Some c \<longrightarrow>
          (price c \<le> 0 \<longrightarrow> value_raw c = 0) \<and>
          (price c > 0 \<longrightarrow> value_raw c = attack_raw c / price c))"
  by (simp add: candidate_of_row_def Let_def truediv_def ebind_def)

text \<open>
  Claim C10: \<^verbatim>\<open>build_candidates\<close> never raises \<^verbatim>\<open>ZeroDivisionError\<close> (it returns a list
  of candidates on every input); a candidate whose parsed price is not strictly positive
  has \<open>value_raw = 0\<close>, and \<open>value_raw\<close> is the quotient \<open>attack_raw / price\<close> only where the
  price is strictly positive.
\<close>

theorem build_candidates_no_zero_division:
  "\<exists>cands. build_candidates py_float rows positions mm = Inr cands \<and>
     (\<forall>c \<in> set cands.
        (price c \<le> 0 \<longrightarrow> value_raw c = 0) \<and>
        (price c > 0 \<longrightarrow> value_raw c = attack_raw c / price c))"
proof (induction rows)
  case Nil
  then show ?case by simp
next
  case (Cons row rows)
  obtain r where r: "candidate_of_row py_float (set positions) mm row = Inr r"
    "\<forall>c. r = Some c \<longrightarrow> (price c \<le> 0 \<longrightarrow> value_raw c = 0) \<and>
          (price c > 0 \<longrightarrow> value_raw c = attack_raw c / price c)"
    using candidate_of_row_total by blast
  from Cons obtain cands where c: "build_candidates py_float rows positions mm = Inr cands"
    "\<forall>c \<in> set cands. (price c \<le> 0 \<longrightarrow> value_raw c = 0) \<and>
        (price c > 0 \<longrightarrow> value_raw c = attack_raw c / price c)"
    by blast
  show ?case using r c by (cases r) (simp_all add: ebind_Inr)
qed

text \<open>Witness for C10: one row priced 0 and one row priced 2.\<close>

theorem build_candidates_no_zero_division_witness:
  "\<exists>cands. build_candidates sample_float
              [sample_row ''A'' ''0'' ''CHE (H)'', sample_row ''B'' ''2'' ''CHE (A)'']
              [''MID''] 30 = Inr cands \<and>
           map price cands = [0, 2] \<and> map value_raw cands = [0, 1 / 2]"
  using build_candidates_no_zero_division [of sample_float "[sample_row ''A'' ''0'' ''CHE (H)'', sample_row ''B'' ''2'' ''CHE (A)'']"
      "[''MID'']" 30]
  by (simp add: candidate_of_row_def sample_row_def sample_float_def row_get_def parse_float_def
      upper_def strip_def is_space_def upper_char_def Let_def ebind_def truediv_def clamp_def
      parse_fixture_home_def endswith_def)

section \<open>Scoring and ranking\<close>

lemma fold_ranked:
  "fst (fold (\<lambda>pos (ranked, rbp). (ranked @ g pos, rbp(pos \<mapsto> k pos))) ps (r0, m0))
     = r0 @ concat (map g ps)"
  by (induction ps arbitrary: r0 m0) simp_all

lemma rank_candidates_fst:
  "fst (rank_candidates cs ps n wa wm wv wx) =
     concat (map (\<lambda>pos. assign_ranks (top_group (score_candidates cs wa wm wv wx) pos n)) ps)"
  unfolding rank_candidates_def Let_def
  using fold_ranked [of "\<lambda>pos. assign_ranks (top_group (score_candidates cs wa wm wv wx) pos n)"
      "\<lambda>pos. int (length (top_group (score_candidates cs wa wm wv wx) pos n))" ps "[]" Map.empty]
  by simp

lemma assign_ranks_nth:
  "i < length xs \<Longrightarrow> assign_ranks xs ! i = (xs ! i)\<lparr>rank_position := int (Suc i)\<rparr>"
  by (simp add: assign_ranks_def nth_enumerate_eq)

lemma length_assign_ranks: "length (assign_ranks xs) = length xs"
  by (simp add: assign_ranks_def)

lemma assign_ranks_mem:
  "c \<in> set (assign_ranks xs) \<Longrightarrow> \<exists>d \<in> set xs. \<exists>i. c = d\<lparr>rank_position := i\<rparr>"
  by (auto simp: assign_ranks_def enumerate_eq_zip dest!: set_zip_rightD)

lemma top_group_subset: "set (top_group sc pos n) \<subseteq> {c \<in> set sc. position c = pos}"
  by (auto simp: top_group_def Let_def dest!: in_set_takeD)

lemma ranked_mem:
  assumes "c \<in> set (fst (rank_candidates cs ps n wa wm wv wx))"
  shows "\<exists>d \<in> set (score_candidates cs wa wm wv wx). \<exists>i. c = d\<lparr>rank_position := i\<rparr> \<and> position d \<in> set ps"
proof -
  from assms obtain pos where pos: "pos \<in> set ps"
    and c: "c \<in> set (assign_ranks (top_group (score_candidates cs wa wm wv wx) pos n))"
    by (auto simp: rank_candidates_fst)
  from assign_ranks_mem [OF c] obtain d i where
    d: "d \<in> set (top_group (score_candidates cs wa wm wv wx) pos n)" "c = d\<lparr>rank_position := i\<rparr>"
    by blast
  with top_group_subset [of "score_candidates cs wa wm wv wx" pos n] pos show ?thesis by blast
qed

lemma score_candidates_mem:
  "d' \<in> set (score_candidates cs wa wm wv wx) \<Longrightarrow>
   \<exists>d \<in> set cs. d' = d\<lparr>score := py_round (wa * attack_norm d + wm * minutes_norm d
                                   + wv * value_norm d + wx * real_of_int (fixture_home d)) 6\<rparr>"
  by (auto simp: score_candidates_def compute_weighted_score_def Let_def)

lemma candidate_of_row_home:
  "candidate_of_row py_float allowed mm row = Inr (Some c) \<Longrightarrow>
   fixture_home c = (if endswith (next_opponent c) ''(H)'' then 1 else 0)"
  by (auto simp: candidate_of_row_def Let_def ebind_def parse_fixture_home_def
      split: if_splits sum.splits)

lemma build_candidates_home:
  "build_candidates py_float rows positions mm = Inr cands \<Longrightarrow> c \<in> set cands \<Longrightarrow>
   fixture_home c = (if endswith (next_opponent c) ''(H)'' then 1 else 0)"
proof (induction rows arbitrary: cands)
  case Nil
  then show ?case by simp
next
  case (Cons row rows)
  from Cons.prems(1) obtain r cs' where
    r: "candidate_of_row py_float (set positions) mm row = Inr r" and
    cs': "build_candidates py_float rows positions mm = Inr cs'" and
    eq: "cands = (case r of None \<Rightarrow> cs' | Some c' \<Rightarrow> c' # cs')"
    by (auto simp: ebind_eq_Inr)
  show ?case
  proof (cases r)
    case None
    with eq Cons.prems(2) Cons.IH [OF cs'] show ?thesis by simp
  next
    case (Some c')
    with eq Cons.prems(2) have "c = c' \<or> c \<in> set cs'" by auto
    then show ?thesis
      using candidate_of_row_home [of py_float "set positions" mm row c'] r Some Cons.IH [OF cs']
      by blast
  qed
qed

text \<open>
  Claim C5, as the code has it: the score of every ranked candidate is the blend
  \<open>w_attack * attack_norm + w_minutes * minutes_norm + w_value * value_norm +
  w_fixture * fixture_home\<close> rounded to six decimal places, the weights being the values
  passed in (defaults 0.50, 0.25, 0.20, 0.05); ranking changes no field of a candidate but
  the score and the rank; and \<^verbatim>\<open>build_candidates\<close> sets \<open>fixture_home\<close> to 1 exactly when
  the stripped next-opponent annotation ends with \<open>(H)\<close>, and to 0 otherwise.
\<close>

theorem weighted_score_is_rounded_blend:
  "(\<forall>c \<in> set (fst (rank_candidates cs ps n wa wm wv wx)).
      score c = py_round (wa * attack_norm c + wm * minutes_norm c + wv * value_norm c
                          + wx * real_of_int (fixture_home c)) 6 \<and>
      (\<exists>d \<in> set cs. \<exists>i. c = d\<lparr>score := score c, rank_position := i\<rparr>)) \<and>
   (\<forall>cands. build_candidates py_float rows ps mm = Inr cands \<longrightarrow>
      (\<forall>c \<in> set cands. fixture_home c = (if endswith (next_opponent c) ''(H)'' then 1 else 0))) \<and>
   default_weights = (1 / 2, 1 / 4, 1 / 5, 1 / 20)"
proof (intro conjI ballI allI impI)
  fix c assume c: "c \<in> set (fst (rank_candidates cs ps n wa wm wv wx))"
  from ranked_mem [OF c] obtain d' i where
    d': "d' \<in> set (score_candidates cs wa wm wv wx)" "c = d'\<lparr>rank_position := i\<rparr>" by blast
  from score_candidates_mem [OF d'(1)] obtain d where
    d: "d \<in> set cs" "d' = d\<lparr>score := py_round (wa * attack_norm d + wm * minutes_norm d
                                   + wv * value_norm d + wx * real_of_int (fixture_home d)) 6\<rparr>"
    by blast
  show "score c = py_round (wa * attack_norm c + wm * minutes_norm c + wv * value_norm c
                          + wx * real_of_int (fixture_home c)) 6"
    using d' d by simp
  show "\<exists>d \<in> set cs. \<exists>i. c = d\<lparr>score := score c, rank_position := i\<rparr>"
    using d' d by (intro bexI [of _ d] exI [of _ i]) simp_all
next
  fix cands c
  assume "build_candidates py_float rows ps mm = Inr cands" "c \<in> set cands"
  then show "fixture_home c = (if endswith (next_opponent c) ''(H)'' then 1 else 0)"
    by (rule build_candidates_home)
next
  show "default_weights = (1 / 2, 1 / 4, 1 / 5, 1 / 20)"
    by (simp add: default_weights_def)
qed

text \<open>
  Claim C5 as stated fails: with the default weights a candidate whose \<open>attack_norm\<close> is
  1/64 and whose other signals are 0 has the blend 0.0078125, and its score is the rounded
  0.007812.
\<close>

theorem weighted_score_not_exact_blend:
  "map score (fst (rank_candidates [sample_candidate ''A'' ''MID'' (1 / 64) 1 5] [''MID''] 20
                      0.5 0.25 0.2 0.05))
   \<noteq> [0.5 * (1 / 64) + 0.25 * 0 + 0.2 * 0 + 0.05 * real_of_int 0]"
  by (simp add: rank_candidates_def score_candidates_def top_group_def assign_ranks_def
      sample_candidate_def compute_weighted_score_def py_round_def round_half_even_def Let_def
      enumerate_eq_zip)

text \<open>Witness for C5: two ranked candidates and two candidate rows, one home and one
  away.\<close>

theorem weighted_score_is_rounded_blend_witness:
  "map score (fst (rank_candidates [sample_candidate ''A'' ''MID'' (1 / 64) 1 5,
                                    sample_candidate ''B'' ''MID'' 1 1 5] [''MID''] 20
                      0.5 0.25 0.2 0.05)) = [1 / 2, 7812 / 1000000] \<and>
   (\<exists>cands. build_candidates sample_float
              [sample_row ''A'' ''0'' ''CHE (H)'', sample_row ''B'' ''2'' ''CHE (A)'']
              [''MID''] 30 = Inr cands \<and> map fixture_home cands = [1, 0])"
  using weighted_score_is_rounded_blend [of "[sample_candidate ''A'' ''MID'' (1 / 64) 1 5, sample_candidate ''B'' ''MID'' 1 1 5]"
               "[''MID'']" 20 "0.5" "0.25" "0.2" "0.05" sample_float
               "[sample_row ''A'' ''0'' ''CHE (H)'', sample_row ''B'' ''2'' ''CHE (A)'']" 30]
  by (simp add: rank_candidates_def score_candidates_def top_group_def assign_ranks_def
      sample_candidate_def compute_weighted_score_def py_round_def round_half_even_def Let_def
      rank_key_def enumerate_eq_zip less_eq_prod_def
      candidate_of_row_def sample_row_def sample_float_def row_get_def parse_float_def
      upper_def strip_def is_space_def upper_char_def ebind_def truediv_def clamp_def
      parse_fixture_home_def endswith_def)

lemma rank_key_le: "rank_key c \<le> rank_key d \<longleftrightarrow> ranks_before c d"
  by (auto simp: rank_key_def ranks_before_def less_eq_prod_def)

lemma sorted_group: "sorted_wrt ranks_before (sort_key rank_key xs)"
proof -
  have "sorted (map rank_key (sort_key rank_key xs))" by (rule sorted_sort_key)
  then show ?thesis by (simp add: sorted_map rank_key_le)
qed

lemma assign_ranks_position: "c \<in> set (assign_ranks xs) \<Longrightarrow> \<exists>d \<in> set xs. position c = position d"
  by (auto dest!: assign_ranks_mem)

lemma block_filter:
  "filter (\<lambda>c. position c = pos) (assign_ranks (top_group sc q n)) =
     (if q = pos then assign_ranks (top_group sc pos n) else [])"
proof -
  have "\<forall>c \<in> set (assign_ranks (top_group sc q n)). position c = q"
    using top_group_subset [of sc q n] by (auto dest!: assign_ranks_position)
  then show ?thesis by (auto simp: filter_empty_conv filter_id_conv)
qed

lemma concat_blocks:
  "distinct ps \<Longrightarrow> pos \<in> set ps \<Longrightarrow>
   concat (map (\<lambda>q. if q = pos then b else []) ps) = b"
  by (induction ps) (auto simp: concat_eq_Nil_conv)

lemma ranked_group:
  assumes "distinct ps" "pos \<in> set ps"
  shows "filter (\<lambda>c. position c = pos) (fst (rank_candidates cs ps n wa wm wv wx)) =
         assign_ranks (top_group (score_candidates cs wa wm wv wx) pos n)"
  using concat_blocks [OF assms]
  by (simp add: rank_candidates_fst filter_concat comp_def block_filter)

text \<open>
  Claim C6: the output of \<^verbatim>\<open>rank_candidates\<close> is made of one block per entry of the list
  of positions, in order. The block of a position holds the first \<open>N\<close> candidates of the
  scored group of that position arranged in the documented order (descending by score,
  then descending by \<open>value_raw\<close>, then ascending by price, player name and team label),
  \<open>N\<close> being the configured top-N, and their ranks are 1, 2, 3, ... in that order. When
  the list of positions has no duplicates, as \<^verbatim>\<open>parse_positions\<close> returns it, the block of a
  position is exactly the rows of that position in the output.
\<close>

theorem rank_candidates_group_order:
  "\<exists>block.
     fst (rank_candidates cs positions n wa wm wv wx) = concat (map block positions) \<and>
     (\<forall>pos. \<exists>sg.
        mset sg = mset (filter (\<lambda>c. position c = pos) (score_candidates cs wa wm wv wx)) \<and>
        sorted_wrt ranks_before sg \<and>
        length (block pos) = min (nat n) (length sg) \<and>
        (\<forall>i < length (block pos). block pos ! i = (sg ! i)\<lparr>rank_position := int i + 1\<rparr>) \<and>
        map rank_position (block pos) = map int [1 ..< Suc (length (block pos))]) \<and>
     (distinct positions \<longrightarrow>
        (\<forall>pos \<in> set positions.
           filter (\<lambda>c. position c = pos) (fst (rank_candidates cs positions n wa wm wv wx))
             = block pos))"
proof -
  let ?sc = "score_candidates cs wa wm wv wx"
  let ?block = "\<lambda>pos. assign_ranks (top_group ?sc pos n)"
  have a: "fst (rank_candidates cs positions n wa wm wv wx) = concat (map ?block positions)"
    by (rule rank_candidates_fst)
  have b: "\<exists>sg. mset sg = mset (filter (\<lambda>c. position c = pos) ?sc) \<and>
        sorted_wrt ranks_before sg \<and>
        length (?block pos) = min (nat n) (length sg) \<and>
        (\<forall>i < length (?block pos). ?block pos ! i = (sg ! i)\<lparr>rank_position := int i + 1\<rparr>) \<and>
        map rank_position (?block pos) = map int [1 ..< Suc (length (?block pos))]" for pos
  proof -
    let ?sg = "sort_key rank_key (filter (\<lambda>c. position c = pos) ?sc)"
    have blk: "?block pos = assign_ranks (take (nat n) ?sg)"
      by (simp add: top_group_def Let_def max_def)
    have 1: "mset ?sg = mset (filter (\<lambda>c. position c = pos) ?sc)" by simp
    have 2: "sorted_wrt ranks_before ?sg" by (rule sorted_group)
    have 3: "length (assign_ranks (take (nat n) ?sg)) = min (nat n) (length ?sg)"
      by (simp add: length_assign_ranks min.commute)
    have 4: "assign_ranks (take (nat n) ?sg) ! i = (?sg ! i)\<lparr>rank_position := int i + 1\<rparr>"
      if "i < length (assign_ranks (take (nat n) ?sg))" for i
      using that by (simp add: length_assign_ranks assign_ranks_nth)
    have 5: "map rank_position (assign_ranks xs) = map int [1 ..< Suc (length xs)]" for xs
      by (rule nth_equalityI) (simp_all add: length_assign_ranks assign_ranks_nth del: upt_Suc)
    show ?thesis
      unfolding blk
      using 1 2 3 4 5 [of "take (nat n) ?sg"]
      by (intro exI [of _ ?sg]) (simp add: length_assign_ranks del: upt_Suc)
  qed
  have c: "filter (\<lambda>c. position c = pos) (fst (rank_candidates cs positions n wa wm wv wx))
             = ?block pos" if "distinct positions" "pos \<in> set positions" for pos
    using that by (rule ranked_group)
  show ?thesis
  proof (intro exI [of _ ?block] conjI allI impI ballI)
    show "fst (rank_candidates cs positions n wa wm wv wx) = concat (map ?block positions)"
      by (rule a)
  next
    fix pos
    show "\<exists>sg. mset sg = mset (filter (\<lambda>c. position c = pos) ?sc) \<and>
        sorted_wrt ranks_before sg \<and>
        length (?block pos) = min (nat n) (length sg) \<and>
        (\<forall>i < length (?block pos). ?block pos ! i = (sg ! i)\<lparr>rank_position := int i + 1\<rparr>) \<and>
        map rank_position (?block pos) = map int [1 ..< Suc (length (?block pos))]"
      by (rule b)
  next
    fix pos
    assume "distinct positions" "pos \<in> set positions"
    then show "filter (\<lambda>c. position c = pos)
                 (fst (rank_candidates cs positions n wa wm wv wx)) = ?block pos"
      by (rule c)
  qed
qed

text \<open>Witness for C6: three midfielders and a defender, the two best midfielders are
  kept.\<close>

theorem rank_candidates_group_order_witness:
  "distinct [''MID'', ''DEF''] \<and> ''MID'' \<in> set [''MID'', ''DEF''] \<and>
   map (\<lambda>c. (player c, rank_position c))
     (filter (\<lambda>c. position c = ''MID'')
        (fst (rank_candidates
                [sample_candidate ''A'' ''MID'' 0 1 5, sample_candidate ''B'' ''MID'' 1 1 5,
                 sample_candidate ''C'' ''DEF'' 1 1 5, sample_candidate ''D'' ''MID'' 1 2 5]
                [''MID'', ''DEF''] 2 0.5 0.25 0.2 0.05))) = [(''D'', 1), (''B'', 2)]"
  using rank_candidates_group_order [of
      "[sample_candidate ''A'' ''MID'' 0 1 5, sample_candidate ''B'' ''MID'' 1 1 5,
        sample_candidate ''C'' ''DEF'' 1 1 5, sample_candidate ''D'' ''MID'' 1 2 5]"
      "[''MID'', ''DEF'']" 2 "0.5" "0.25" "0.2" "0.05"]
  by (simp add: rank_candidates_def score_candidates_def top_group_def assign_ranks_def
      sample_candidate_def compute_weighted_score_def py_round_def round_half_even_def Let_def
      rank_key_def enumerate_eq_zip less_eq_prod_def)

section \<open>The feature table\<close>

lemma mapE_mem:
  "mapE f xs = Inr ys \<Longrightarrow> y \<in> set ys \<Longrightarrow> \<exists>x \<in> set xs. f x = Inr y"
proof (induction xs arbitrary: ys)
  case Nil
  then show ?case by simp
next
  case (Cons x xs)
  from Cons.prems(1) obtain z zs where
    z: "f x = Inr z" and zs: "mapE f xs = Inr zs" and ys: "ys = z # zs"
    by (auto simp: ebind_eq_Inr)
  from Cons.prems(2) ys have "y = z \<or> y \<in> set zs" by simp
  then show ?case
  proof
    assume "y = z"
    with z show ?thesis by simp
  next
    assume "y \<in> set zs"
    from Cons.IH [OF zs this] show ?thesis by auto
  qed
qed

lemma mapE_total:
  "(\<And>x. x \<in> set xs \<Longrightarrow> \<exists>y. f x = Inr y) \<Longrightarrow> \<exists>ys. mapE f xs = Inr ys \<and> length ys = length xs"
proof (induction xs)
  case Nil
  then show ?case by simp
next
  case (Cons x xs)
  then obtain y ys where "f x = Inr y" "mapE f xs = Inr ys" "length ys = length xs"
    by (metis list.set_intros(1,2))
  then show ?case by (simp add: ebind_Inr)
qed

lemma foldE_total:
  "(\<And>x s. x \<in> set xs \<Longrightarrow> \<exists>s'. f x s = Inr s') \<Longrightarrow> \<exists>s'. foldE f xs s = Inr s'"
proof (induction xs arbitrary: s)
  case Nil
  then show ?case by simp
next
  case (Cons x xs)
  then obtain s1 where "f x s = Inr s1" by (metis list.set_intros(1))
  moreover from Cons obtain s2 where "foldE f xs s1 = Inr s2" by (metis list.set_intros(2))
  ultimately show ?case by (simp add: ebind_Inr)
qed

lemma build_horizon_map_total: "\<exists>hm. build_horizon_map tfs horizon = Inr hm"
  unfolding build_horizon_map_def Let_def
  by (intro foldE_total) (auto simp: truediv_def ebind_def split: prod.splits)

lemma rolling_mean_total: "\<exists>v. rolling_mean xs n = Inr v"
  by (simp add: rolling_mean_def Let_def truediv_def)

lemma rolling_std_total: "\<exists>v. rolling_std xs n = Inr v"
  by (auto simp: rolling_std_def Let_def truediv_def ebind_def)

lemma benching_total: "\<exists>v. compute_benching_probability xs = Inr v"
proof (cases "xs = []")
  case True
  then show ?thesis by (simp add: compute_benching_probability_def)
next
  case False
  then show ?thesis using benching_nonempty by blast
qed

lemma feature_row_of_total:
  "\<exists>r. feature_row_of dgw hm rd names horizon p t prior = Inr r"
proof -
  obtain s1 where s1: "rolling_std (map m_minutes prior) 5 = Inr s1" using rolling_std_total by blast
  obtain s2 where s2: "rolling_std (map m_points prior) 5 = Inr s2" using rolling_std_total by blast
  obtain b where b: "compute_benching_probability (last_n (map m_minutes prior) 5) = Inr b"
    using benching_total by blast
  obtain a1 where a1: "rolling_mean (map m_points prior) 3 = Inr a1" using rolling_mean_total by blast
  obtain a2 where a2: "rolling_mean (map m_points prior) 5 = Inr a2" using rolling_mean_total by blast
  obtain a3 where a3: "rolling_mean (map m_minutes prior) 3 = Inr a3" using rolling_mean_total by blast
  obtain a4 where a4: "rolling_mean (map m_minutes prior) 5 = Inr a4" using rolling_mean_total by blast
  obtain a5 where a5: "rolling_mean (map m_xgi prior) 3 = Inr a5" using rolling_mean_total by blast
  obtain a6 where a6: "rolling_mean (map m_xgi prior) 5 = Inr a6" using rolling_mean_total by blast
  show ?thesis
    unfolding feature_row_of_def Let_def
    by (simp only: s1 s2 b a1 a2 a3 a4 a5 a6 ebind_Inr) blast
qed

lemma feature_row_of_fields:
  assumes "feature_row_of dgw hm rd names horizon p t prior = Inr r"
  shows "f_player_id r = pl_player_id p" "f_fixture_id r = tf_fixture_id t"
    "f_target_event r = tf_event t" "f_team_id r = pl_team_id p"
    "f_dgw_count_in_event r = (case dgw (pl_team_id p, tf_event t) of None \<Rightarrow> 1 | Some c \<Rightarrow> c)"
    "f_is_dgw r = (if f_dgw_count_in_event r > 1 then 1 else 0)"
    "rolling_mean (map m_points prior) 3 = Inr (f_recent_points_avg_3 r)"
    "rolling_mean (map m_points prior) 5 = Inr (f_recent_points_avg_5 r)"
    "rolling_mean (map m_minutes prior) 3 = Inr (f_recent_minutes_avg_3 r)"
    "rolling_mean (map m_minutes prior) 5 = Inr (f_recent_minutes_avg_5 r)"
    "rolling_mean (map m_xgi prior) 3 = Inr (f_recent_xgi_avg_3 r)"
    "rolling_mean (map m_xgi prior) 5 = Inr (f_recent_xgi_avg_5 r)"
    "rolling_std (map m_minutes prior) 5 = Inr (90 * f_minutes_volatility_5 r)"
    "rolling_std (map m_points prior) 5 = Inr (f_points_volatility_5 r)"
    "compute_benching_probability (last_n (map m_minutes prior) 5) = Inr (f_benching_probability r)"
    "f_risk_score r = compute_risk_score (f_benching_probability r) (f_minutes_volatility_5 r)
                        (if lower (str_of (pl_status p)) = ''a'' then 0 else 1)"
    "f_last_price r = (if \<exists>h \<in> set prior. m_price h > 0
                       then last (filter (\<lambda>v. v > 0) (map m_price prior)) else pl_now_cost p)"
  using assms unfolding feature_row_of_def Let_def ebind_eq_Inr
  by (auto simp: filter_empty_conv)

lemma is_prior_match_strictly_prior:
  "is_prior_match (m_kickoff_dt h) (m_round h) (tf_kickoff_dt t) (tf_event t) = strictly_prior h t"
  by (cases "m_kickoff_dt h"; cases "tf_kickoff_dt t")
     (simp_all add: is_prior_match_def strictly_prior_def)

lemma prior_matches_strictly_prior:
  "prior_matches hs (tf_kickoff_dt t) (tf_event t) = filter (\<lambda>h. strictly_prior h t) hs"
  by (simp add: prior_matches_def is_prior_match_strictly_prior)

lemma merge_targets_mem:
  "(p, t) \<in> set (merge_targets players ttf) \<longleftrightarrow>
     p \<in> set players \<and> t \<in> set ttf \<and> tf_team_id t = pl_team_id p"
  by (auto simp: merge_targets_def)

lemma target_filter_conv:
  "target_filter incl tfs = filter (\<lambda>r. (incl \<or> tf_finished r = 0) \<and> tf_event r > 0) tfs"
  by (cases incl) (simp_all add: target_filter_def Let_def conj_commute)

lemma home_row_sel:
  "tf_finished (home_row td fx) = fillna 0 (fx_finished fx)"
  "tf_event (home_row td fx) = fillna 0 (fx_event fx)"
  "tf_finished (away_row td fx) = fillna 0 (fx_finished fx)"
  "tf_event (away_row td fx) = fillna 0 (fx_event fx)"
  by (simp_all add: home_row_def away_row_def)

lemma is_target_fixture_conv:
  "is_target_fixture incl fx \<longleftrightarrow>
     (incl \<or> fillna 0 (fx_finished fx) = 0) \<and> fillna 0 (fx_event fx) > 0"
  by (cases "fx_finished fx"; cases "fx_event fx")
     (simp_all add: fillna_def is_target_fixture_def)

lemma target_filter_empty:
  "target_filter incl (build_team_fixture_rows td fixtures) = [] \<longleftrightarrow>
     \<not> (\<exists>fx \<in> set fixtures. is_target_fixture incl fx)"
proof -
  have "target_filter incl (build_team_fixture_rows td fixtures) = [] \<longleftrightarrow>
        (\<forall>fx \<in> set fixtures. \<not> is_target_fixture incl fx)"
    unfolding target_filter_conv build_team_fixture_rows_def filter_append filter_map
      append_is_Nil_conv map_is_Nil_conv filter_empty_conv comp_def home_row_sel
      is_target_fixture_conv
    by blast
  then show ?thesis by blast
qed

lemma build_feature_table_success:
  assumes "build_feature_table td (Some d) out horizon incl fs = (Inr counts, fs')"
  shows "\<exists>hm feature_rows.
     db_players d \<noteq> [] \<and> db_fixtures d \<noteq> [] \<and>
     target_filter incl (build_team_fixture_rows td (db_fixtures d)) \<noteq> [] \<and>
     mapE (build_feature_row (player_history td (db_history d))
             (dgw_count_map (build_team_fixture_rows td (db_fixtures d))) hm
             (build_rest_days_map (build_team_fixture_rows td (db_fixtures d)))
             (team_name_map (db_players d)) horizon)
          (merge_targets (db_players d)
             (target_filter incl (build_team_fixture_rows td (db_fixtures d)))) = Inr feature_rows \<and>
     fs' = fs(out \<mapsto> sort_key (\<lambda>r. (f_target_event r, f_fixture_id r, f_team_id r, f_player_id r))
                        feature_rows)"
  using assms unfolding build_feature_table_def Let_def
  by (auto split: if_splits sum.splits)

lemma build_feature_table_row:
  assumes run: "build_feature_table td (Some d) out horizon incl fs = (Inr counts, fs')"
    and out: "fs' out = Some rows" and r: "r \<in> set rows"
  shows "\<exists>p t dgw hm rd names.
     p \<in> set (db_players d) \<and>
     t \<in> set (target_filter incl (build_team_fixture_rows td (db_fixtures d))) \<and>
     tf_team_id t = pl_team_id p \<and>
     feature_row_of dgw hm rd names horizon p t
       (filter (\<lambda>h. strictly_prior h t) (player_history td (db_history d) (pl_player_id p))) = Inr r"
proof -
  from build_feature_table_success [OF run] obtain hm feature_rows where
    m: "mapE (build_feature_row (player_history td (db_history d))
             (dgw_count_map (build_team_fixture_rows td (db_fixtures d))) hm
             (build_rest_days_map (build_team_fixture_rows td (db_fixtures d)))
             (team_name_map (db_players d)) horizon)
          (merge_targets (db_players d)
             (target_filter incl (build_team_fixture_rows td (db_fixtures d)))) = Inr feature_rows"
    and fs': "fs' = fs(out \<mapsto> sort_key (\<lambda>r. (f_target_event r, f_fixture_id r, f_team_id r,
                                            f_player_id r)) feature_rows)"
    by blast
  from fs' out r have "r \<in> set feature_rows" by auto
  from mapE_mem [OF m this] obtain p t where
    pt: "(p, t) \<in> set (merge_targets (db_players d)
             (target_filter incl (build_team_fixture_rows td (db_fixtures d))))"
    and row: "build_feature_row (player_history td (db_history d))
             (dgw_count_map (build_team_fixture_rows td (db_fixtures d))) hm
             (build_rest_days_map (build_team_fixture_rows td (db_fixtures d)))
             (team_name_map (db_players d)) horizon (p, t) = Inr r"
    by auto
  from row have "feature_row_of (dgw_count_map (build_team_fixture_rows td (db_fixtures d))) hm
             (build_rest_days_map (build_team_fixture_rows td (db_fixtures d)))
             (team_name_map (db_players d)) horizon p t
       (filter (\<lambda>h. strictly_prior h t) (player_history td (db_history d) (pl_player_id p))) = Inr r"
    by (simp add: build_feature_row_def Let_def prior_matches_strictly_prior)
  with pt show ?thesis unfolding merge_targets_mem by blast
qed

lemma build_feature_table_total:
  assumes "db_players d \<noteq> []" "db_fixtures d \<noteq> []"
    "\<exists>fx \<in> set (db_fixtures d). is_target_fixture incl fx"
  shows "\<exists>n rows. build_feature_table td (Some d) out horizon incl fs =
           (Inr (n, int (length rows)), fs(out \<mapsto> rows))"
proof -
  let ?tfs = "build_team_fixture_rows td (db_fixtures d)"
  from assms(3) have t: "target_filter incl ?tfs \<noteq> []" by (simp add: target_filter_empty)
  obtain hm where hm: "build_horizon_map ?tfs (max 1 horizon) = Inr hm"
    using build_horizon_map_total by blast
  have "\<exists>y. build_feature_row (player_history td (db_history d)) (dgw_count_map ?tfs) hm
              (build_rest_days_map ?tfs) (team_name_map (db_players d)) horizon x = Inr y" for x
    unfolding build_feature_row_def Let_def by (rule feature_row_of_total)
  from mapE_total [of _ "build_feature_row (player_history td (db_history d)) (dgw_count_map ?tfs) hm
              (build_rest_days_map ?tfs) (team_name_map (db_players d)) horizon", OF this]
  obtain rows where "mapE (build_feature_row (player_history td (db_history d)) (dgw_count_map ?tfs) hm
              (build_rest_days_map ?tfs) (team_name_map (db_players d)) horizon)
           (merge_targets (db_players d) (target_filter incl ?tfs)) = Inr rows"
    by blast
  with assms(1,2) t hm show ?thesis
    by (intro exI [of _ "int (length (merge_targets (db_players d) (target_filter incl ?tfs)))"]
        exI [of _ "sort_key (\<lambda>r. (f_target_event r, f_fixture_id r, f_team_id r, f_player_id r)) rows"])
      (simp add: build_feature_table_def Let_def)
qed

text \<open>The run of \<^verbatim>\<open>build_feature_table\<close> on the sample database, evaluated.\<close>

lemmas feature_table_defs =
  build_feature_table_def build_team_fixture_rows_def home_row_def away_row_def fillna_def
  team_name_map_def dict_of_def drop_duplicates_def dgw_count_map_def
  build_rest_days_map_def rest_days_step_def na_last_def less_eq_prod_def
  build_horizon_map_def event_stats_def horizon_totals_def
  target_filter_def merge_targets_def player_history_def match_of_def xgi_proxy_def
  build_feature_row_def prior_matches_def is_prior_match_def feature_row_of_def
  rolling_mean_def rolling_std_def compute_benching_probability_def compute_risk_score_def
  last_n_def str_of_def lower_def lower_char_def ebind_def truediv_def Let_def

lemma sample_run:
  "build_feature_table sample_to_datetime (Some sample_db) ''features.parquet'' 3 False Map.empty
     = (Inr (3, 3), [''features.parquet'' \<mapsto> sample_rows])"
  by (simp add: sample_db_def sample_to_datetime_def sample_rows_def feature_table_defs)

text \<open>
  Claim C1: every row that \<^verbatim>\<open>build_feature_table\<close> writes belongs to a player and a
  target fixture of the player's team, and its rolling means, its two volatilities, its
  benching probability (hence its risk score) and its last price are computed from the
  records of that player's history that are strictly prior to the target, and from no
  other record: a record is used only if its kickoff timestamp is strictly less than the
  target's when both timestamps are known, and only if its round is strictly less than
  the target's event when one of them is unknown.
\<close>

theorem feature_rows_use_prior_history_only:
  assumes "build_feature_table td (Some d) out horizon incl fs = (Inr counts, fs')"
    and "fs' out = Some rows" and "r \<in> set rows"
  shows "\<exists>p t.
     p \<in> set (db_players d) \<and>
     t \<in> set (target_filter incl (build_team_fixture_rows td (db_fixtures d))) \<and>
     tf_team_id t = pl_team_id p \<and>
     f_player_id r = pl_player_id p \<and> f_fixture_id r = tf_fixture_id t \<and>
     f_target_event r = tf_event t \<and>
     (let prior = filter (\<lambda>h. strictly_prior h t)
                    (player_history td (db_history d) (pl_player_id p))
      in (\<forall>h \<in> set prior.
            (\<forall>a b. m_kickoff_dt h = Some a \<and> tf_kickoff_dt t = Some b \<longrightarrow> a < b) \<and>
            (m_kickoff_dt h = None \<or> tf_kickoff_dt t = None \<longrightarrow> m_round h < tf_event t)) \<and>
         rolling_mean (map m_points prior) 3 = Inr (f_recent_points_avg_3 r) \<and>
         rolling_mean (map m_points prior) 5 = Inr (f_recent_points_avg_5 r) \<and>
         rolling_mean (map m_minutes prior) 3 = Inr (f_recent_minutes_avg_3 r) \<and>
         rolling_mean (map m_minutes prior) 5 = Inr (f_recent_minutes_avg_5 r) \<and>
         rolling_mean (map m_xgi prior) 3 = Inr (f_recent_xgi_avg_3 r) \<and>
         rolling_mean (map m_xgi prior) 5 = Inr (f_recent_xgi_avg_5 r) \<and>
         rolling_std (map m_minutes prior) 5 = Inr (90 * f_minutes_volatility_5 r) \<and>
         rolling_std (map m_points prior) 5 = Inr (f_points_volatility_5 r) \<and>
         compute_benching_probability (last_n (map m_minutes prior) 5)
           = Inr (f_benching_probability r) \<and>
         f_risk_score r = compute_risk_score (f_benching_probability r) (f_minutes_volatility_5 r)
                            (if lower (str_of (pl_status p)) = ''a'' then 0 else 1) \<and>
         f_last_price r = (if \<exists>h \<in> set prior. m_price h > 0
                           then last (filter (\<lambda>v. v > 0) (map m_price prior))
                           else pl_now_cost p))"
proof -
  from build_feature_table_row [OF assms] obtain p t dgw hm rd names where
    p: "p \<in> set (db_players d)" and
    t: "t \<in> set (target_filter incl (build_team_fixture_rows td (db_fixtures d)))"
       "tf_team_id t = pl_team_id p" and
    row: "feature_row_of dgw hm rd names horizon p t
       (filter (\<lambda>h. strictly_prior h t) (player_history td (db_history d) (pl_player_id p))) = Inr r"
    by blast
  have sp: "(\<forall>a b. m_kickoff_dt h = Some a \<and> tf_kickoff_dt t = Some b \<longrightarrow> a < b) \<and>
            (m_kickoff_dt h = None \<or> tf_kickoff_dt t = None \<longrightarrow> m_round h < tf_event t)"
    if "strictly_prior h t" for h
    using that by (auto simp: strictly_prior_def split: option.splits)
  note f = feature_row_of_fields [OF row]
  have b: "\<forall>h \<in> set (filter (\<lambda>h. strictly_prior h t)
                        (player_history td (db_history d) (pl_player_id p))).
            (\<forall>a b. m_kickoff_dt h = Some a \<and> tf_kickoff_dt t = Some b \<longrightarrow> a < b) \<and>
            (m_kickoff_dt h = None \<or> tf_kickoff_dt t = None \<longrightarrow> m_round h < tf_event t)"
  proof
    fix h
    assume "h \<in> set (filter (\<lambda>h. strictly_prior h t)
                        (player_history td (db_history d) (pl_player_id p)))"
    then have "strictly_prior h t" by simp
    then show "(\<forall>a b. m_kickoff_dt h = Some a \<and> tf_kickoff_dt t = Some b \<longrightarrow> a < b) \<and>
            (m_kickoff_dt h = None \<or> tf_kickoff_dt t = None \<longrightarrow> m_round h < tf_event t)"
      by (rule sp)
  qed
  show ?thesis
    unfolding Let_def
    by (rule exI [of _ p], rule exI [of _ t]) (intro conjI p t f(1-3) f(7-17) b)
qed

text \<open>
  Witness for C1: for the first target of the sample (fixture 40, event 4) the record of
  fixture 40 itself is left out, and the record of round 3, which has no kickoff time, is
  kept by its round.
\<close>

theorem feature_rows_use_prior_history_only_witness:
  "build_feature_table sample_to_datetime (Some sample_db) ''features.parquet'' 3 False Map.empty
     = (Inr (3, 3), [''features.parquet'' \<mapsto> sample_rows]) \<and>
   sample_rows ! 0 \<in> set sample_rows \<and>
   map m_round (player_history sample_to_datetime (db_history sample_db) 1) = [2, 4, 3] \<and>
   map m_round (filter (\<lambda>h. strictly_prior h
                               (home_row sample_to_datetime (db_fixtures sample_db ! 1)))
                  (player_history sample_to_datetime (db_history sample_db) 1)) = [2, 3] \<and>
   f_recent_points_avg_3 (sample_rows ! 0) = 4 \<and> f_last_price (sample_rows ! 0) = 10.1"
  using sample_run feature_rows_use_prior_history_only [OF sample_run, of sample_rows "sample_rows ! 0"]
  by (simp add: sample_rows_def sample_db_def sample_to_datetime_def player_history_def
      match_of_def fillna_def xgi_proxy_def na_last_def less_eq_prod_def home_row_def
      strictly_prior_def)

text \<open>
  Claim C8: in every row that \<^verbatim>\<open>build_feature_table\<close> writes, \<open>is_dgw\<close> is 1 if and only
  if \<open>dgw_count_in_event\<close> is strictly greater than 1, and 0 otherwise.
\<close>

theorem is_dgw_iff_count_above_one:
  assumes "build_feature_table td (Some d) out horizon incl fs = (Inr counts, fs')"
    and "fs' out = Some rows" and "r \<in> set rows"
  shows "(f_is_dgw r = 1 \<longleftrightarrow> f_dgw_count_in_event r > 1) \<and>
         (f_is_dgw r = 0 \<longleftrightarrow> \<not> f_dgw_count_in_event r > 1)"
proof -
  from build_feature_table_row [OF assms] obtain p t dgw hm rd names prior where
    "feature_row_of dgw hm rd names horizon p t prior = Inr r" by blast
  from feature_row_of_fields(6) [OF this] show ?thesis by simp
qed

text \<open>Witness for C8: the sample has a row of a double gameweek and a row of a single
  one.\<close>

theorem is_dgw_iff_count_above_one_witness:
  "build_feature_table sample_to_datetime (Some sample_db) ''features.parquet'' 3 False Map.empty
     = (Inr (3, 3), [''features.parquet'' \<mapsto> sample_rows]) \<and>
   sample_rows ! 0 \<in> set sample_rows \<and> sample_rows ! 2 \<in> set sample_rows \<and>
   f_dgw_count_in_event (sample_rows ! 0) = 2 \<and> f_is_dgw (sample_rows ! 0) = 1 \<and>
   f_dgw_count_in_event (sample_rows ! 2) = 1 \<and> f_is_dgw (sample_rows ! 2) = 0"
  using sample_run
    is_dgw_iff_count_above_one [OF sample_run, of sample_rows "sample_rows ! 0"]
    is_dgw_iff_count_above_one [OF sample_run, of sample_rows "sample_rows ! 2"]
  by (simp add: sample_rows_def)

text \<open>
  Claim C9: if the players table or the fixtures table is empty, or if no fixture is a
  target after the filter, \<^verbatim>\<open>build_feature_table\<close> raises a \<^verbatim>\<open>ValueError\<close> and the file
  system is left as it was: nothing is written.
\<close>

theorem build_feature_table_empty_source_raises:
  assumes "db_players d = [] \<or> db_fixtures d = [] \<or>
           \<not> (\<exists>fx \<in> set (db_fixtures d). is_target_fixture incl fx)"
  shows "\<exists>msg. build_feature_table td (Some d) out horizon incl fs = (Inl (ValueError msg), fs)"
proof (cases "db_players d = [] \<or> db_fixtures d = []")
  case True
  then show ?thesis by (auto simp: build_feature_table_def Let_def)
next
  case False
  with assms have "target_filter incl (build_team_fixture_rows td (db_fixtures d)) = []"
    by (simp add: target_filter_empty)
  moreover obtain hm where
    "build_horizon_map (build_team_fixture_rows td (db_fixtures d)) (max 1 horizon) = Inr hm"
    using build_horizon_map_total by blast
  ultimately show ?thesis using False by (simp add: build_feature_table_def Let_def)
qed

text \<open>Witness for C9: the sample without players, and the sample with its finished
  fixture only.\<close>

theorem build_feature_table_empty_source_raises_witness:
  "db_players (sample_db\<lparr>db_players := []\<rparr>) = [] \<and>
   build_feature_table sample_to_datetime (Some (sample_db\<lparr>db_players := []\<rparr>))
       ''features.parquet'' 3 False Map.empty
     = (Inl (ValueError ''Missing source data in DB (players/fixtures)''), Map.empty) \<and>
   \<not> (\<exists>fx \<in> set (db_fixtures (sample_db\<lparr>db_fixtures := [hd (db_fixtures sample_db)]\<rparr>)).
         is_target_fixture False fx) \<and>
   build_feature_table sample_to_datetime
       (Some (sample_db\<lparr>db_fixtures := [hd (db_fixtures sample_db)]\<rparr>))
       ''features.parquet'' 3 False Map.empty
     = (Inl (ValueError ''No target fixtures found after filtering''), Map.empty)"
  using build_feature_table_empty_source_raises [of "sample_db\<lparr>db_players := []\<rparr>" False sample_to_datetime "''features.parquet''" 3 Map.empty]
    build_feature_table_empty_source_raises [of "sample_db\<lparr>db_fixtures := [hd (db_fixtures sample_db)]\<rparr>" False sample_to_datetime
          "''features.parquet''" 3 Map.empty]
  by (simp add: sample_db_def sample_to_datetime_def is_target_fixture_def feature_table_defs)

end
